theory Spec2Isabelle
  imports Main "HOL-Library.Sublist"
begin

section \<open>Python values and exceptions\<close>

text \<open>
  The configuration document is an untyped tree of nested mappings, sequences and
  scalars. A mapping is an association list in insertion order whose keys are distinct,
  as the items of a Python dict are; \<open>Bool\<close> stands for the scalars that are not strings.
\<close>

datatype pyvalue =
    is_Str: Str (un_Str: string)
  | Bool bool
  | Seq "pyvalue list"
  | Dict "(string \<times> pyvalue) list"

type_synonym dict = "(string \<times> pyvalue) list"

type_synonym path = string

text \<open>
  Every raise of the source is a value. \<open>SystemExit\<close> is \<open>sys.exit\<close>; \<open>Unmodelled\<close> is
  not a Python exception: it marks a document that leaves the shape of the configuration
  format at a place where the model does not follow what Python would do with it
  (a flag list holding something that is not a string, a project name that is not a string).
\<close>

datatype exn =
    SystemExit nat
  | RuntimeError string
  | AttributeError string
  | KeyError string
  | TypeError
  | ValueError
  | IndexError
  | Unmodelled

fun and_then :: "exn + 'a \<Rightarrow> ('a \<Rightarrow> exn + 'b) \<Rightarrow> exn + 'b" where
  "and_then (Inl e) f = Inl e"
| "and_then (Inr x) f = f x"

fun fold_exn :: "('s \<Rightarrow> 'a \<Rightarrow> exn + 's) \<Rightarrow> 's \<Rightarrow> 'a list \<Rightarrow> exn + 's" where
  "fold_exn f s [] = Inr s"
| "fold_exn f s (x # xs) = and_then (f s x) (\<lambda>s'. fold_exn f s' xs)"

text \<open>\<open>for x in v\<close>: a list gives its elements, a dict its keys, a string its characters.\<close>

fun py_iter :: "pyvalue \<Rightarrow> exn + pyvalue list" where
  "py_iter (Seq vs) = Inr vs"
| "py_iter (Dict d) = Inr (map (\<lambda>kv. Str (fst kv)) d)"
| "py_iter (Str s) = Inr (map (\<lambda>c. Str [c]) s)"
| "py_iter (Bool b) = Inl TypeError"

text \<open>\<open>v.get(k, dflt)\<close>: only a dict has the method.\<close>

fun py_get :: "pyvalue \<Rightarrow> string \<Rightarrow> pyvalue \<Rightarrow> exn + pyvalue" where
  "py_get (Dict d) k dflt = Inr (case map_of d k of Some v \<Rightarrow> v | None \<Rightarrow> dflt)"
| "py_get (Str s) k dflt = Inl (AttributeError ''get'')"
| "py_get (Bool b) k dflt = Inl (AttributeError ''get'')"
| "py_get (Seq vs) k dflt = Inl (AttributeError ''get'')"

text \<open>\<open>k in v\<close> for a string \<open>k\<close>: a key of a dict, an element of a list, a substring of a string.\<close>

fun py_in :: "string \<Rightarrow> pyvalue \<Rightarrow> exn + bool" where
  "py_in k (Dict d) = Inr (map_of d k \<noteq> None)"
| "py_in k (Seq vs) = Inr (List.member vs (Str k))"
| "py_in k (Str s) = Inr (list_ex (prefix k) (suffixes s))"
| "py_in k (Bool b) = Inl TypeError"

text \<open>\<open>v[k]\<close> for a string \<open>k\<close>.\<close>

fun py_getitem :: "pyvalue \<Rightarrow> string \<Rightarrow> exn + pyvalue" where
  "py_getitem (Dict d) k = (case map_of d k of Some v \<Rightarrow> Inr v | None \<Rightarrow> Inl (KeyError k))"
| "py_getitem (Str s) k = Inl TypeError"
| "py_getitem (Bool b) k = Inl TypeError"
| "py_getitem (Seq vs) k = Inl TypeError"

text \<open>A value used where the source needs a \<open>str\<close> (string concatenation, a path segment).\<close>

fun as_str :: "pyvalue \<Rightarrow> exn + string" where
  "as_str (Str s) = Inr s"
| "as_str (Bool b) = Inl TypeError"
| "as_str (Seq vs) = Inl TypeError"
| "as_str (Dict d) = Inl TypeError"

text \<open>\<open>lst += v\<close> on a list of flag strings.\<close>

definition extend_flags :: "string list \<Rightarrow> pyvalue \<Rightarrow> exn + string list" where
  "extend_flags lst v =
     and_then (py_iter v) (\<lambda>vs.
       if list_all is_Str vs then Inr (lst @ map un_Str vs) else Inl Unmodelled)"

text \<open>
  \<open>Path.joinpath\<close> with one segment, for a base that is not the root and a relative,
  non-empty segment.
\<close>

definition joinpath :: "path \<Rightarrow> string \<Rightarrow> path" where
  "joinpath p s = p @ ''/'' @ s"

section \<open>platform.py\<close>

text \<open>
  What the module needs of the running interpreter: \<open>sys.version_info\<close> and the
  \<open>sysconfig\<close> paths.
\<close>

record python_info =
  py_include :: path
  py_data :: path
  py_major :: string
  py_minor :: string
  py_ext_suffix :: pyvalue

text \<open>
  The module body: the names it binds for the value of \<open>sys.platform\<close>, or the
  \<open>RuntimeError\<close> of its last branch, raised when the module is imported.
\<close>

definition platform_py :: "python_info \<Rightarrow> string \<Rightarrow> exn + dict" where
  "platform_py py sys_platform =
     (if sys_platform = ''linux'' then
        Inr [(''PLATFORM'', Str ''linux''),
             (''EXECUTABLE_OUTPUT_DIR'', Str ''bin''),
             (''SHARED_LIBRARY_OUTPUT_DIR'', Str ''lib''),
             (''STATIC_LIBRARY_OUTPUT_DIR'', Str ''lib''),
             (''PLATFORM_PYTHON_INCLUDE_PATH'', Str (py_include py)),
             (''PLATFORM_PYTHON_LIBRARY_PATH'', Str (joinpath (py_data py) ''lib'')),
             (''PLATFORM_PYTHON_LIBRARY_NAME'', Str (''python'' @ py_major py @ ''.'' @ py_minor py)),
             (''PLATFORM_PYTHON_EXTENSION_SUFFIX'', py_ext_suffix py)]
      else if sys_platform = ''darwin'' then
        Inr [(''PLATFORM'', Str ''osx''),
             (''EXECUTABLE_OUTPUT_DIR'', Str ''bin''),
             (''SHARED_LIBRARY_OUTPUT_DIR'', Str ''lib''),
             (''STATIC_LIBRARY_OUTPUT_DIR'', Str ''lib''),
             (''PLATFORM_PYTHON_INCLUDE_PATH'', Str (py_include py)),
             (''PLATFORM_PYTHON_LIBRARY_PATH'', Str (joinpath (py_data py) ''lib'')),
             (''PLATFORM_PYTHON_LIBRARY_NAME'', Str (''python'' @ py_major py @ ''.'' @ py_minor py)),
             (''PLATFORM_PYTHON_EXTENSION_SUFFIX'', py_ext_suffix py)]
      else if sys_platform = ''win32'' then
        Inr [(''PLATFORM'', Str ''windows''),
             (''EXECUTABLE_OUTPUT_DIR'', Str ''bin''),
             (''SHARED_LIBRARY_OUTPUT_DIR'', Str ''bin''),
             (''STATIC_LIBRARY_OUTPUT_DIR'', Str ''lib''),
             (''PLATFORM_PYTHON_INCLUDE_PATH'', Str (py_include py)),
             (''PLATFORM_PYTHON_LIBRARY_PATH'', Str (joinpath (py_data py) ''libs'')),
             (''PLATFORM_PYTHON_LIBRARY_NAME'', Str (''python'' @ py_major py @ py_minor py)),
             (''PLATFORM_PYTHON_EXTENSION_SUFFIX'', py_ext_suffix py)]
      else Inl (RuntimeError (''Platform '' @ sys_platform @ ''is currently not supported.'')))"

text \<open>\<open>_platform.NAME\<close>: reading a name the module does not bind raises \<open>AttributeError\<close>.\<close>

definition module_attr :: "dict \<Rightarrow> string \<Rightarrow> exn + pyvalue" where
  "module_attr pmod nm =
     (case map_of pmod nm of Some v \<Rightarrow> Inr v | None \<Rightarrow> Inl (AttributeError nm))"

section \<open>target.py: the data\<close>

text \<open>
  The classes of target objects: the four that project.py calls, and \<open>Compilable\<close>,
  the base class of the three with sources, which can be called itself and then takes
  the link command, the output folder, the platform flags, the prefix and the suffix as
  arguments.
\<close>

datatype target_class = HeaderOnly | Executable | SharedLibrary | StaticLibrary | Compilable

text \<open>Modelled from the spec: \<open>BuildType\<close> (build_type.py), the four build types of section 3.\<close>

datatype build_type = Release | Debug | RelWithDebInfo | Coverage

text \<open>The fields of the environment that target.py and project.py read.\<close>

record environment =
  env_workingdir :: path
  env_build_directory :: path
  env_build_type :: build_type
  env_clang :: string
  env_clangpp :: string
  env_clang_ar :: string
  env_force_build :: bool
  env_tests :: bool
  env_examples :: bool
  env_progress_disabled :: bool

text \<open>
  What the constructors take from outside the program: the file system
  (\<open>Path.exists\<close>, \<open>Path.resolve\<close>), the order in which a Python set built from a
  list is iterated (\<open>list(set(xs))\<close>), the two functions of dialect_check.py, and the
  object file that a \<open>SingleSource\<close> (single_source.py) computes from its object
  directory, the target root and its source file.
\<close>

record runtime =
  path_exists :: "path \<Rightarrow> bool"
  path_resolve :: "path \<Rightarrow> path"
  list_set :: "string list \<Rightarrow> string list"
  get_dialect_string :: "pyvalue \<Rightarrow> string"
  get_max_supported_compiler_dialect :: "string \<Rightarrow> string"
  object_file_of :: "path \<Rightarrow> path \<Rightarrow> path \<Rightarrow> path"

text \<open>\<open>list(set(xs))\<close> has the elements of \<open>xs\<close>, each once, in some order.\<close>

definition list_set_ok :: "runtime \<Rightarrow> bool" where
  "list_set_ok rt = (\<forall>xs. set (list_set rt xs) = set xs \<and> distinct (list_set rt xs))"

text \<open>Resolving a resolved path changes nothing.\<close>

definition resolve_idempotent :: "runtime \<Rightarrow> bool" where
  "resolve_idempotent rt = (\<forall>p. path_resolve rt (path_resolve rt p) = path_resolve rt p)"

text \<open>The attributes \<open>Target.__init__\<close> sets, but for the dependency list.\<close>

record target_core =
  cls :: target_class
  options :: dict
  project_identifier :: string
  name :: string
  target_identifier :: string
  root_directory :: path
  build_directory :: path
  include_directories :: "path list"
  include_directories_public :: "path list"
  headers :: "path list"
  tests_folder :: "path option"
  examples_folder :: "path option"
  dialect :: string
  compile_flags :: "string list"
  link_flags :: "string list"
  compile_flags_interface :: "string list"
  link_flags_interface :: "string list"
  compile_flags_public :: "string list"
  link_flags_public :: "string list"

text \<open>A \<open>SingleSource\<close>: the keyword arguments it is constructed with, and its object file.\<close>

record single_source =
  ss_source_file :: path
  ss_platform_flags :: pyvalue
  ss_current_target_root_path :: path
  ss_depfile_directory :: path
  ss_object_directory :: path
  ss_include_strings :: "string list"
  ss_compile_flags :: "string list"
  ss_clang :: string
  ss_clangpp :: string
  ss_max_cpp_dialect :: string
  ss_object_file :: path

text \<open>The attributes \<open>Compilable.__init__\<close> adds.\<close>

record compilable_part =
  object_directory :: path
  depfile_directory :: path
  output_folder :: path
  outname :: string
  outfile :: path
  source_files :: "path list"
  include_directories_command :: "string list"
  buildables :: "single_source list"
  link_command :: "string list"
  before_compile_script :: pyvalue
  before_link_script :: pyvalue
  after_build_script :: pyvalue

text \<open>
  A target object. A header-only target has no compilable part: reading
  \<open>output_folder\<close>, \<open>outname\<close> or \<open>buildables\<close> of one raises \<open>AttributeError\<close>.
  The lists \<open>dependency_targets_tests\<close> and \<open>dependency_targets_examples\<close>, which
  hold the object itself and serve the test and example expansion only, are left out.
\<close>

datatype target =
  Target (core: target_core) (dependency_targets: "target list") (compilable: "compilable_part option")

text \<open>The arguments of \<open>Target.__init__\<close>.\<close>

record target_args =
  a_project_identifier :: string
  a_name :: string
  a_root_directory :: path
  a_build_directory :: path
  a_headers :: "path list"
  a_include_directories :: "path list"
  a_include_directories_public :: "path list"
  a_options :: dict
  a_dependencies :: "target list"

section \<open>target.py: flags\<close>

definition DEFAULT_COMPILE_FLAGS :: "string list" where
  "DEFAULT_COMPILE_FLAGS = [''-Wall'', ''-Wextra'', ''-Wpedantic'', ''-Werror'']"

definition DEFAULT_COMPILE_FLAGS_RELEASE :: "string list" where
  "DEFAULT_COMPILE_FLAGS_RELEASE = [''-O3'', ''-DNDEBUG'']"

definition DEFAULT_COMPILE_FLAGS_RELWITHDEBINFO :: "string list" where
  "DEFAULT_COMPILE_FLAGS_RELWITHDEBINFO = [''-O3'', ''-g3'', ''-DNDEBUG'']"

definition DEFAULT_COMPILE_FLAGS_DEBUG :: "string list" where
  "DEFAULT_COMPILE_FLAGS_DEBUG = [''-O0'', ''-g3'', ''-DDEBUG'']"

definition DEFAULT_COMPILE_FLAGS_COVERAGE :: "string list" where
  "DEFAULT_COMPILE_FLAGS_COVERAGE = DEFAULT_COMPILE_FLAGS_DEBUG @ [''--coverage'', ''-fno-inline'']"

text \<open>The chain on \<open>environment.build_type\<close> that starts the private compile flags.\<close>

fun build_type_flags :: "build_type \<Rightarrow> string list" where
  "build_type_flags Release = DEFAULT_COMPILE_FLAGS_RELEASE"
| "build_type_flags Debug = DEFAULT_COMPILE_FLAGS_DEBUG"
| "build_type_flags RelWithDebInfo = DEFAULT_COMPILE_FLAGS_RELWITHDEBINFO"
| "build_type_flags Coverage = DEFAULT_COMPILE_FLAGS_COVERAGE"

text \<open>The key of a flags mapping that the same chain reads in \<open>parse_flags_options\<close>.\<close>

fun build_type_key :: "build_type \<Rightarrow> string" where
  "build_type_key Release = ''compile_release''"
| "build_type_key Debug = ''compile_debug''"
| "build_type_key RelWithDebInfo = ''compile_relwithdebinfo''"
| "build_type_key Coverage = ''compile_coverage''"

text \<open>
  One of the three platform sections of \<open>parse_flags_options\<close>: when \<open>pname\<close> is a key of
  the options and the platform module's \<open>PLATFORM\<close> equals it, the section's mapping
  for the flags kind (an empty mapping when the section has none) joins \<open>flags_dicts\<close>.
\<close>

definition platform_layer :: "dict \<Rightarrow> dict \<Rightarrow> string \<Rightarrow> string \<Rightarrow> exn + pyvalue list" where
  "platform_layer pmod opts pname flags_kind =
     (case map_of opts pname of
        None \<Rightarrow> Inr []
      | Some sect \<Rightarrow>
          and_then (module_attr pmod ''PLATFORM'') (\<lambda>p.
            if p = Str pname
            then and_then (py_get sect flags_kind (Dict [])) (\<lambda>fd. Inr [fd])
            else Inr []))"

text \<open>The body of the loop over \<open>flags_dicts\<close>, on the pair of lists built so far.\<close>

definition add_flags_dict ::
  "build_type \<Rightarrow> string list \<times> string list \<Rightarrow> pyvalue \<Rightarrow> exn + (string list \<times> string list)" where
  "add_flags_dict bt acc fdict =
     and_then (py_get fdict ''compile'' (Seq [])) (\<lambda>v1.
     and_then (extend_flags (fst acc) v1) (\<lambda>cfs1.
     and_then (py_get fdict ''link'' (Seq [])) (\<lambda>v2.
     and_then (extend_flags (snd acc) v2) (\<lambda>lfs1.
     and_then (py_get fdict (build_type_key bt) (Seq [])) (\<lambda>v3.
     and_then (extend_flags cfs1 v3) (\<lambda>cfs2.
       Inr (cfs2, lfs1)))))))"

definition parse_flags_options ::
  "dict \<Rightarrow> build_type \<Rightarrow> dict \<Rightarrow> string \<Rightarrow> exn + (string list \<times> string list)" where
  "parse_flags_options pmod bt opts flags_kind =
     and_then (platform_layer pmod opts ''osx'' flags_kind) (\<lambda>osx.
     and_then (platform_layer pmod opts ''windows'' flags_kind) (\<lambda>windows.
     and_then (platform_layer pmod opts ''linux'' flags_kind) (\<lambda>linux.
       fold_exn (add_flags_dict bt) ([], [])
         ((case map_of opts flags_kind of None \<Rightarrow> [] | Some v \<Rightarrow> [v]) @ osx @ windows @ linux))))"

section \<open>target.py: Target\<close>

text \<open>
  The discovery of the tests folder (and, with other names, of the examples folder):
  \<open>root/a\<close> if it exists, else \<open>root/b\<close> if it exists, else the root when the run asks
  for tests and the options' section for them has sources, else none.
\<close>

definition discover_folder ::
  "runtime \<Rightarrow> bool \<Rightarrow> dict \<Rightarrow> path \<Rightarrow> string \<Rightarrow> string \<Rightarrow> string \<Rightarrow> exn + path option" where
  "discover_folder rt enabled opts root a b section_key =
     (if path_exists rt (joinpath root a) then Inr (Some (joinpath root a))
      else if path_exists rt (joinpath root b) then Inr (Some (joinpath root b))
      else if enabled then
        and_then (py_in ''sources'' (case map_of opts section_key of Some v \<Rightarrow> v | None \<Rightarrow> Dict []))
          (\<lambda>has. Inr (if has then Some root else None))
      else Inr None)"

text \<open>The dialect: from \<open>options['properties']['cpp_version']\<close> when both keys are there.\<close>

definition target_dialect :: "runtime \<Rightarrow> environment \<Rightarrow> dict \<Rightarrow> exn + string" where
  "target_dialect rt env opts =
     (case map_of opts ''properties'' of
        None \<Rightarrow> Inr (get_max_supported_compiler_dialect rt (env_clangpp env))
      | Some props \<Rightarrow>
          and_then (py_in ''cpp_version'' props) (\<lambda>has.
            if has
            then and_then (py_getitem props ''cpp_version'') (\<lambda>v. Inr (get_dialect_string rt v))
            else Inr (get_max_supported_compiler_dialect rt (env_clangpp env))))"

text \<open>The body of the loop over the dependencies that collects include directories.\<close>

definition include_step :: "target_core \<Rightarrow> target \<Rightarrow> target_core" where
  "include_step self d =
     self\<lparr>include_directories :=
            include_directories self
            @ (if cls (core d) = HeaderOnly then include_directories (core d) else [])
            @ include_directories_public (core d),
          include_directories_public :=
            include_directories_public self @ include_directories_public (core d)\<rparr>"

text \<open>The body of the loop over the dependencies that propagates flags.\<close>

definition propagate_flags :: "target_core \<Rightarrow> target \<Rightarrow> target_core" where
  "propagate_flags self d =
     (if cls self = HeaderOnly then
        self\<lparr>compile_flags_interface := compile_flags_interface self @ compile_flags_interface (core d),
             link_flags_interface := link_flags_interface self @ link_flags_interface (core d),
             compile_flags_public := compile_flags_public self @ compile_flags_public (core d),
             link_flags_public := link_flags_public self @ link_flags_public (core d)\<rparr>
      else if cls self = StaticLibrary then
        self\<lparr>compile_flags_interface := compile_flags_interface self @ compile_flags_interface (core d),
             link_flags_interface := link_flags_interface self @ link_flags_interface (core d),
             compile_flags := compile_flags self @ compile_flags_public (core d),
             link_flags := link_flags self @ link_flags_public (core d)\<rparr>
      else
        self\<lparr>compile_flags :=
               compile_flags self @ compile_flags_interface (core d) @ compile_flags_public (core d),
             link_flags :=
               link_flags self @ link_flags_interface (core d) @ link_flags_public (core d)\<rparr>)"

text \<open>
  The assignments of \<open>Target.__init__\<close> in their order, once the folders, the dialect and
  the three kinds of flags of the options are known.
\<close>

definition Target_assemble ::
  "runtime \<Rightarrow> environment \<Rightarrow> target_class \<Rightarrow> target_args \<Rightarrow> path option \<Rightarrow> path option \<Rightarrow> string
   \<Rightarrow> string list \<times> string list \<Rightarrow> string list \<times> string list \<Rightarrow> string list \<times> string list
   \<Rightarrow> target_core" where
  "Target_assemble rt env c a tf ef dia fl ifl pfl =
     (let self0 = \<lparr>cls = c, options = a_options a,
                   project_identifier = a_project_identifier a,
                   name = a_name a,
                   target_identifier =
                     (if a_project_identifier a \<noteq> [] then a_project_identifier a @ ''.'' @ a_name a
                      else a_name a),
                   root_directory = a_root_directory a,
                   build_directory = a_build_directory a,
                   include_directories = [],
                   include_directories_public =
                     (if path_exists rt (joinpath (a_root_directory a) ''include'')
                      then [joinpath (a_root_directory a) ''include''] else []),
                   headers = a_headers a,
                   tests_folder = tf, examples_folder = ef, dialect = dia,
                   compile_flags = [], link_flags = [],
                   compile_flags_interface = [], link_flags_interface = [],
                   compile_flags_public = [], link_flags_public = []\<rparr>;
          self1 = self0\<lparr>include_directories :=
                          include_directories self0 @ a_include_directories a
                          @ a_include_directories_public a,
                        include_directories_public :=
                          include_directories_public self0 @ a_include_directories_public a\<rparr>;
          self2 = foldl include_step self1 (a_dependencies a);
          self3 = self2\<lparr>include_directories :=
                          list_set rt (map (path_resolve rt) (include_directories self2)),
                        headers := list_set rt (headers self2)\<rparr>;
          self4 = self3\<lparr>compile_flags :=
                          compile_flags self3 @ build_type_flags (env_build_type env) @ fst fl,
                        link_flags := link_flags self3 @ snd fl\<rparr>;
          self5 = foldl propagate_flags self4 (a_dependencies a);
          self6 = self5\<lparr>compile_flags := list_set rt (compile_flags self5)\<rparr>;
          self7 = self6\<lparr>compile_flags_interface := compile_flags_interface self6 @ fst ifl,
                        link_flags_interface := link_flags_interface self6 @ snd ifl\<rparr>
      in self7\<lparr>compile_flags := compile_flags self7 @ fst pfl,
               link_flags := link_flags self7 @ snd pfl,
               compile_flags_public := compile_flags_public self7 @ fst pfl,
               link_flags_public := link_flags_public self7 @ snd pfl\<rparr>)"

text \<open>
  \<open>Target.__init__\<close> for an object of class \<open>c\<close>. What can raise is evaluated in the
  order of the source: the two folder discoveries, the dialect, then the options' flags,
  interface flags and public flags.
\<close>

definition Target_init ::
  "runtime \<Rightarrow> dict \<Rightarrow> environment \<Rightarrow> target_class \<Rightarrow> target_args \<Rightarrow> exn + target" where
  "Target_init rt pmod env c a =
     and_then (discover_folder rt (env_tests env) (a_options a) (a_root_directory a)
                 ''test'' ''tests'' ''tests'') (\<lambda>tf.
     and_then (discover_folder rt (env_examples env) (a_options a) (a_root_directory a)
                 ''example'' ''examples'' ''examples'') (\<lambda>ef.
     and_then (target_dialect rt env (a_options a)) (\<lambda>dia.
     and_then (parse_flags_options pmod (env_build_type env) (a_options a) ''flags'') (\<lambda>fl.
     and_then (parse_flags_options pmod (env_build_type env) (a_options a) ''interface-flags'') (\<lambda>ifl.
     and_then (parse_flags_options pmod (env_build_type env) (a_options a) ''public-flags'') (\<lambda>pfl.
       Inr (Target (Target_assemble rt env c a tf ef dia fl ifl pfl) (a_dependencies a) None)))))))"

definition HeaderOnly_init ::
  "runtime \<Rightarrow> dict \<Rightarrow> environment \<Rightarrow> target_args \<Rightarrow> exn + target" where
  "HeaderOnly_init rt pmod env a = Target_init rt pmod env HeaderOnly a"

section \<open>target.py: Compilable and its subclasses\<close>

fun class_name :: "target_class \<Rightarrow> string" where
  "class_name HeaderOnly = ''HeaderOnly''"
| "class_name Executable = ''Executable''"
| "class_name SharedLibrary = ''SharedLibrary''"
| "class_name StaticLibrary = ''StaticLibrary''"
| "class_name Compilable = ''Compilable''"

text \<open>The message of the \<open>RuntimeError\<close>; \<open>CHR 0x27\<close> is the quote in the class's \<open>repr\<close>.\<close>

definition no_sources_message :: "target_core \<Rightarrow> string" where
  "no_sources_message self =
     ''['' @ target_identifier self @ '']: ERROR: Target was defined as a <class ''
     @ [CHR 0x27] @ ''clang_build.target.'' @ class_name (cls self) @ [CHR 0x27]
     @ ''> but no source files were found''"

definition target_scripts :: "dict \<Rightarrow> exn + (pyvalue \<times> pyvalue \<times> pyvalue)" where
  "target_scripts opts =
     (case map_of opts ''scripts'' of
        None \<Rightarrow> Inr (Str [], Str [], Str [])
      | Some s \<Rightarrow>
          and_then (py_get s ''before_compile'' (Str [])) (\<lambda>bc.
          and_then (py_get s ''before_link'' (Str [])) (\<lambda>bl.
          and_then (py_get s ''after_build'' (Str [])) (\<lambda>ab.
            Inr (bc, bl, ab)))))"

text \<open>
  \<open>Compilable.__init__\<close> for an object of class \<open>c\<close>. \<open>link_cmd\<close>, \<open>out_folder\<close>,
  \<open>platform_flags\<close>, \<open>name_prefix\<close> and \<open>name_suffix\<close> are its arguments
  \<open>link_command\<close>, \<open>output_folder\<close>, \<open>platform_flags\<close>, \<open>prefix\<close> and \<open>suffix\<close>:
  what the caller passes when it calls \<open>Compilable\<close> itself, what the subclass read
  from the platform module when the call comes from a subclass.
\<close>

definition Compilable_init ::
  "runtime \<Rightarrow> dict \<Rightarrow> environment \<Rightarrow> target_class \<Rightarrow> target_args \<Rightarrow> path list \<Rightarrow> string list
   \<Rightarrow> pyvalue \<Rightarrow> pyvalue \<Rightarrow> pyvalue \<Rightarrow> pyvalue \<Rightarrow> exn + target" where
  "Compilable_init rt pmod env c a srcs link_cmd out_folder platform_flags name_prefix name_suffix =
     and_then (Target_init rt pmod env c a) (\<lambda>t.
       if srcs = [] then Inl (RuntimeError (no_sources_message (core t)))
       else
         let self = core t;
             objd = path_resolve rt (joinpath (build_directory self) ''obj'');
             depd = path_resolve rt (joinpath (build_directory self) ''dep'')
         in
         and_then (as_str out_folder) (\<lambda>out.
         and_then (as_str name_prefix) (\<lambda>pre.
         and_then (as_str (case map_of (options self) ''output_name'' of
                             Some v \<Rightarrow> v | None \<Rightarrow> Str (name self))) (\<lambda>oname.
         and_then (as_str name_suffix) (\<lambda>suf.
         and_then (target_scripts (options self)) (\<lambda>scripts.
           let outf = path_resolve rt (joinpath (build_directory self) out);
               ofile = path_resolve rt (joinpath outf (pre @ oname @ suf));
               idc = concat (map (\<lambda>dir. [''-I'', path_resolve rt dir]) (include_directories self))
           in
           Inr (Target self (dependency_targets t)
                  (Some \<lparr>object_directory = objd,
                         depfile_directory = depd,
                         output_folder = outf,
                         outname = oname,
                         outfile = ofile,
                         source_files = srcs,
                         include_directories_command = idc,
                         buildables =
                           map (\<lambda>sf. \<lparr>ss_source_file = sf,
                                       ss_platform_flags = platform_flags,
                                       ss_current_target_root_path = root_directory self,
                                       ss_depfile_directory = depd,
                                       ss_object_directory = objd,
                                       ss_include_strings = idc,
                                       ss_compile_flags = DEFAULT_COMPILE_FLAGS @ compile_flags self,
                                       ss_clang = env_clang env,
                                       ss_clangpp = env_clangpp env,
                                       ss_max_cpp_dialect = dialect self,
                                       ss_object_file = object_file_of rt objd (root_directory self) sf\<rparr>)
                             srcs,
                         link_command = link_cmd @ [ofile],
                         before_compile_script = fst scripts,
                         before_link_script = fst (snd scripts),
                         after_build_script = snd (snd scripts)\<rparr>))))))))"

text \<open>
  Reading an attribute that \<open>Compilable.__init__\<close> sets, of a dependency.
\<close>

definition dep_attr :: "target \<Rightarrow> string \<Rightarrow> (compilable_part \<Rightarrow> 'a) \<Rightarrow> exn + 'a" where
  "dep_attr d nm f = (case compilable d of None \<Rightarrow> Inl (AttributeError nm) | Some cp \<Rightarrow> Inr (f cp))"

text \<open>The bodies of the three loops over the dependencies that extend a link command.\<close>

definition library_search_step :: "runtime \<Rightarrow> string list \<Rightarrow> target \<Rightarrow> exn + string list" where
  "library_search_step rt cmd d =
     (if cls (core d) \<noteq> HeaderOnly
      then and_then (dep_attr d ''output_folder'' output_folder) (\<lambda>out. Inr (cmd @ [''-L'', path_resolve rt out]))
      else Inr cmd)"

definition link_dependency_step :: "string list \<Rightarrow> target \<Rightarrow> exn + string list" where
  "link_dependency_step cmd d =
     (if cls (core d) \<noteq> HeaderOnly
      then and_then (dep_attr d ''outname'' outname) (\<lambda>n. Inr (cmd @ [''-l'' @ n]))
      else Inr cmd)"

definition archive_dependency_step :: "string list \<Rightarrow> target \<Rightarrow> exn + string list" where
  "archive_dependency_step cmd d =
     (if cls (core d) \<noteq> HeaderOnly
      then and_then (dep_attr d ''buildables'' buildables) (\<lambda>bs. Inr (cmd @ map ss_object_file bs))
      else Inr cmd)"

text \<open>
  The statements that follow the call of \<open>Compilable.__init__\<close> in \<open>Executable.__init__\<close>
  and, word for word, in \<open>SharedLibrary.__init__\<close>.
\<close>

definition link_against_dependencies :: "runtime \<Rightarrow> target \<Rightarrow> exn + target" where
  "link_against_dependencies rt t =
     (case compilable t of
        None \<Rightarrow> Inl (AttributeError ''link_command'')
      | Some cp \<Rightarrow>
          and_then (fold_exn (library_search_step rt)
                      (link_command cp @ map ss_object_file (buildables cp))
                      (dependency_targets t)) (\<lambda>cmd.
          and_then (fold_exn link_dependency_step (cmd @ link_flags (core t))
                      (dependency_targets t)) (\<lambda>cmd'.
            Inr (Target (core t) (dependency_targets t) (Some (cp\<lparr>link_command := cmd'\<rparr>))))))"

text \<open>The statements that follow it in \<open>StaticLibrary.__init__\<close>.\<close>

definition archive_dependencies :: "target \<Rightarrow> exn + target" where
  "archive_dependencies t =
     (case compilable t of
        None \<Rightarrow> Inl (AttributeError ''link_command'')
      | Some cp \<Rightarrow>
          and_then (fold_exn archive_dependency_step
                      (link_command cp @ map ss_object_file (buildables cp) @ link_flags (core t))
                      (dependency_targets t)) (\<lambda>cmd.
            Inr (Target (core t) (dependency_targets t) (Some (cp\<lparr>link_command := cmd\<rparr>)))))"

text \<open>
  The three constructors. The arguments of the call of \<open>Compilable.__init__\<close> are
  evaluated first, in the order they are written: the four platform constants are read
  before anything else happens.
\<close>

definition Executable_init ::
  "runtime \<Rightarrow> dict \<Rightarrow> environment \<Rightarrow> target_args \<Rightarrow> path list \<Rightarrow> exn + target" where
  "Executable_init rt pmod env a srcs =
     and_then (module_attr pmod ''EXECUTABLE_OUTPUT'') (\<lambda>out.
     and_then (module_attr pmod ''PLATFORM_EXTRA_FLAGS_EXECUTABLE'') (\<lambda>pf.
     and_then (module_attr pmod ''EXECUTABLE_PREFIX'') (\<lambda>pre.
     and_then (module_attr pmod ''EXECUTABLE_SUFFIX'') (\<lambda>suf.
     and_then (Compilable_init rt pmod env Executable a srcs [env_clangpp env, ''-o''] out pf pre suf)
       (link_against_dependencies rt)))))"

definition SharedLibrary_init ::
  "runtime \<Rightarrow> dict \<Rightarrow> environment \<Rightarrow> target_args \<Rightarrow> path list \<Rightarrow> exn + target" where
  "SharedLibrary_init rt pmod env a srcs =
     and_then (module_attr pmod ''SHARED_LIBRARY_OUTPUT'') (\<lambda>out.
     and_then (module_attr pmod ''PLATFORM_EXTRA_FLAGS_SHARED'') (\<lambda>pf.
     and_then (module_attr pmod ''SHARED_LIBRARY_PREFIX'') (\<lambda>pre.
     and_then (module_attr pmod ''SHARED_LIBRARY_SUFFIX'') (\<lambda>suf.
     and_then (Compilable_init rt pmod env SharedLibrary a srcs
                 [env_clangpp env, ''-shared'', ''-o''] out pf pre suf)
       (link_against_dependencies rt)))))"

definition StaticLibrary_init ::
  "runtime \<Rightarrow> dict \<Rightarrow> environment \<Rightarrow> target_args \<Rightarrow> path list \<Rightarrow> exn + target" where
  "StaticLibrary_init rt pmod env a srcs =
     and_then (module_attr pmod ''STATIC_LIBRARY_OUTPUT'') (\<lambda>out.
     and_then (module_attr pmod ''PLATFORM_EXTRA_FLAGS_STATIC'') (\<lambda>pf.
     and_then (module_attr pmod ''STATIC_LIBRARY_PREFIX'') (\<lambda>pre.
     and_then (module_attr pmod ''STATIC_LIBRARY_SUFFIX'') (\<lambda>suf.
     and_then (Compilable_init rt pmod env StaticLibrary a srcs [env_clang_ar env, ''rc''] out pf pre suf)
       archive_dependencies))))"

text \<open>
  Calling the class \<open>c\<close> with the arguments that the four classes of project.py
  take; a header-only target takes no source files. \<open>Compilable\<close> has five more
  required parameters, so that this call of it raises \<open>TypeError\<close>.
\<close>

fun construct ::
  "runtime \<Rightarrow> dict \<Rightarrow> environment \<Rightarrow> target_class \<Rightarrow> target_args \<Rightarrow> path list \<Rightarrow> exn + target" where
  "construct rt pmod env HeaderOnly a srcs = HeaderOnly_init rt pmod env a"
| "construct rt pmod env Executable a srcs = Executable_init rt pmod env a srcs"
| "construct rt pmod env SharedLibrary a srcs = SharedLibrary_init rt pmod env a srcs"
| "construct rt pmod env StaticLibrary a srcs = StaticLibrary_init rt pmod env a srcs"
| "construct rt pmod env Compilable a srcs = Inl TypeError"

section \<open>project.py\<close>

text \<open>
  What \<open>Project.__init__\<close> takes from outside project.py. The three functions of
  dependency_tools.py and the source discovery of io_tools.py are not part of the
  sources at hand and are parameters. The constructors of the target classes are
  parameters too: the calls in project.py pass their arguments by position in the order
  of an earlier signature (the target name first, then the working directory, the build
  directory, the headers, ...), which is not the order of the parameters in target.py,
  so the model records each call with the arguments as they are written, under the
  names they have at the call site, and leaves open what the constructor makes of them;
  what the constructors of target.py make of them follows the loop, as
  \<open>positional_new_target\<close>. \<open>class_of\<close> is \<open>target.__class__\<close>.
\<close>

record files =
  f_headers :: "path list"
  f_include_directories :: "path list"
  f_include_directories_public :: "path list"
  f_sourcefiles :: "path list"

text \<open>
  A constructor call. \<open>cc_sourcefiles\<close> is \<open>None\<close> in a call of \<open>HeaderOnly\<close>, which
  passes no source files; \<open>cc_environment\<close> stands for the arguments
  \<open>environment.buildType\<close>, \<open>environment.clangpp\<close> and, for a static library,
  \<open>environment.clang_ar\<close>.
\<close>

record 'tgt ctor_call =
  cc_class :: target_class
  cc_target_name :: string
  cc_workingdir :: path
  cc_target_build_dir :: path
  cc_headers :: "path list"
  cc_include_directories :: "path list"
  cc_sourcefiles :: "path list option"
  cc_environment :: environment
  cc_project_node :: pyvalue
  cc_dependencies :: "'tgt list"

record 'tgt collaborators =
  find_non_existent_dependencies :: "dict \<Rightarrow> (string \<times> string) list"
  find_circular_dependencies :: "dict \<Rightarrow> (string \<times> string) list list"
  get_dependency_walk :: "dict \<Rightarrow> string list"
  get_sources_and_headers :: "pyvalue \<Rightarrow> path \<Rightarrow> path \<Rightarrow> files"
  new_target :: "'tgt ctor_call \<Rightarrow> exn + 'tgt"
  class_of :: "'tgt \<Rightarrow> target_class"

text \<open>
  What a run leaves behind: the records given to \<open>environment.logger\<close>, the lines
  printed, and the constructor calls made, each in order. The error about executables
  among the dependencies carries the targets, whose \<open>repr\<close> the message ends with.
\<close>

datatype 'tgt log_entry =
    LogError string
  | LogInfo string
  | LogErrorExecutables "'tgt list"

record 'tgt world =
  logged :: "'tgt log_entry list"
  printed :: "string list"
  calls :: "'tgt ctor_call list"

text \<open>
  The attributes of a project object; \<open>target_list\<close> and \<open>build_directory\<close> are not set
  when the constructor returns early for a project without targets.
\<close>

record 'tgt project =
  p_name :: string
  p_targets_config :: dict
  p_subprojects_config :: dict
  p_target_list :: "'tgt list option"
  p_build_directory :: "path option"

subsection \<open>Strings\<close>

text \<open>\<open>str.lower\<close> on the ASCII letters; other bytes stay.\<close>

definition lower_char :: "char \<Rightarrow> char" where
  "lower_char ch =
     (if 65 \<le> (of_char ch :: nat) \<and> (of_char ch :: nat) \<le> 90
      then char_of ((of_char ch :: nat) + 32) else ch)"

definition lower :: "string \<Rightarrow> string" where
  "lower s = map lower_char s"

text \<open>\<open>'\n'.join(msgs)\<close>.\<close>

fun join_lines :: "string list \<Rightarrow> string" where
  "join_lines [] = []"
| "join_lines [m] = m"
| "join_lines (m # m' # ms) = m @ [CHR 0x0A] @ join_lines (m' # ms)"

text \<open>
  \<open>textwrap.indent('\n'.join(msgs), ' ' * 3)\<close> for messages that hold no line break and
  are not blank, as those made here are when the target names hold no line break: each
  message gets the prefix. For no message at all the result is the empty string.
\<close>

definition indent_messages :: "string list \<Rightarrow> string" where
  "indent_messages msgs = join_lines (map (\<lambda>m. ''   '' @ m) msgs)"

text \<open>The decimal digits of a number, for \<open>len(...)\<close> in a message.\<close>

fun decimal :: "nat \<Rightarrow> string" where
  "decimal n =
     (if n < 10 then [char_of (48 + n)]
      else decimal (n div 10) @ [char_of (48 + n mod 10)])"

subsection \<open>One target\<close>

text \<open>\<open>target_names.index(v)\<close> and \<open>target_list[i]\<close>.\<close>

fun index_of :: "string list \<Rightarrow> pyvalue \<Rightarrow> exn + nat" where
  "index_of [] v = Inl ValueError"
| "index_of (x # xs) v = (if Str x = v then Inr 0 else and_then (index_of xs v) (\<lambda>i. Inr (Suc i)))"

definition list_item :: "'a list \<Rightarrow> nat \<Rightarrow> exn + 'a" where
  "list_item xs i = (if i < length xs then Inr (xs ! i) else Inl IndexError)"

fun map_exn :: "('a \<Rightarrow> exn + 'b) \<Rightarrow> 'a list \<Rightarrow> exn + 'b list" where
  "map_exn f [] = Inr []"
| "map_exn f (x # xs) = and_then (f x) (\<lambda>y. and_then (map_exn f xs) (\<lambda>ys. Inr (y # ys)))"

text \<open>
  The list comprehension that looks the dependencies up: for each name of the target's
  \<open>dependencies\<close>, the target that stands in the target list at the index the name has
  in the walk.
\<close>

definition resolve_dependencies :: "string list \<Rightarrow> 'tgt list \<Rightarrow> pyvalue \<Rightarrow> exn + 'tgt list" where
  "resolve_dependencies target_names target_list project_node =
     and_then (py_get project_node ''dependencies'' (Seq [])) (\<lambda>v.
     and_then (py_iter v) (\<lambda>names.
       map_exn (\<lambda>n. and_then (index_of target_names n) (list_item target_list)) names))"

text \<open>\<open>self.target_list.append(Class(...))\<close>: the call is made, and may raise.\<close>

definition append_new ::
  "'tgt collaborators \<Rightarrow> 'tgt ctor_call \<Rightarrow> 'tgt list \<Rightarrow> 'tgt world \<Rightarrow> (exn + 'tgt list) \<times> 'tgt world" where
  "append_new c call target_list w =
     (case new_target c call of
        Inl e \<Rightarrow> (Inl e, w\<lparr>calls := calls w @ [call]\<rparr>)
      | Inr t \<Rightarrow> (Inr (target_list @ [t]), w\<lparr>calls := calls w @ [call]\<rparr>))"

definition log :: "'tgt log_entry \<Rightarrow> 'tgt world \<Rightarrow> 'tgt world" where
  "log entry w = w\<lparr>logged := logged w @ [entry]\<rparr>"

definition print_line :: "string \<Rightarrow> 'tgt world \<Rightarrow> 'tgt world" where
  "print_line s w = w\<lparr>printed := printed w @ [s]\<rparr>"

text \<open>The build directory of a target.\<close>

definition target_build_dir_of :: "path \<Rightarrow> bool \<Rightarrow> string \<Rightarrow> path" where
  "target_build_dir_of build_dir multiple_targets target_name =
     (if \<not> multiple_targets then build_dir else joinpath build_dir target_name)"

text \<open>
  The chain on \<open>project_node['target_type'].lower()\<close>, for its value \<open>tt\<close> and the string
  \<open>raw\<close> as it stands in the document. The test for an executable is an \<open>if\<close> of its own;
  the chain that ends in the error about an unsupported type starts at the test for a
  shared library.
\<close>

definition dispatch_target_type ::
  "'tgt collaborators \<Rightarrow> (target_class \<Rightarrow> 'tgt ctor_call) \<Rightarrow> string \<Rightarrow> files \<Rightarrow> string \<Rightarrow> string
   \<Rightarrow> 'tgt list \<Rightarrow> 'tgt world \<Rightarrow> (exn + 'tgt list) \<times> 'tgt world" where
  "dispatch_target_type c call target_name fs tt raw target_list w =
     (case (if tt = ''executable'' then append_new c (call Executable) target_list w
            else (Inr target_list, w)) of
        (Inl e, w1) \<Rightarrow> (Inl e, w1)
      | (Inr target_list1, w1) \<Rightarrow>
          if tt = ''shared library'' then append_new c (call SharedLibrary) target_list1 w1
          else if tt = ''static library'' then append_new c (call StaticLibrary) target_list1 w1
          else if tt = ''header only'' then
            append_new c (call HeaderOnly) target_list1
              (if f_sourcefiles fs \<noteq> []
               then log (LogInfo (''Source files found for header-only target '' @ target_name
                                  @ ''. You may want to check your build configuration.'')) w1
               else w1)
          else (Inr target_list1, log (LogError (''ERROR: Unsupported target type: '' @ raw)) w1))"

text \<open>The body of the loop over the walk.\<close>

definition Project_target ::
  "'tgt collaborators \<Rightarrow> environment \<Rightarrow> string list \<Rightarrow> dict \<Rightarrow> path \<Rightarrow> bool \<Rightarrow> string
   \<Rightarrow> 'tgt list \<Rightarrow> 'tgt world \<Rightarrow> (exn + 'tgt list) \<times> 'tgt world" where
  "Project_target c env target_names targets_config build_dir multiple_targets target_name target_list w =
     (case py_getitem (Dict targets_config) target_name of
        Inl e \<Rightarrow> (Inl e, w)
      | Inr project_node \<Rightarrow>
          let target_build_dir = target_build_dir_of build_dir multiple_targets target_name;
              fs = get_sources_and_headers c project_node (env_workingdir env) target_build_dir
          in
          case resolve_dependencies target_names target_list project_node of
            Inl e \<Rightarrow> (Inl e, w)
          | Inr dependencies \<Rightarrow>
              let executable_dependencies = filter (\<lambda>t. class_of c t = Executable) dependencies;
                  w1 = (if executable_dependencies \<noteq> []
                        then log (LogErrorExecutables executable_dependencies) w else w);
                  call = (\<lambda>k. \<lparr>cc_class = k, cc_target_name = target_name,
                                cc_workingdir = env_workingdir env,
                                cc_target_build_dir = target_build_dir,
                                cc_headers = f_headers fs,
                                cc_include_directories = f_include_directories fs,
                                cc_sourcefiles =
                                  (if k = HeaderOnly then None else Some (f_sourcefiles fs)),
                                cc_environment = env,
                                cc_project_node = project_node,
                                cc_dependencies = dependencies\<rparr>)
              in
              case py_in ''target_type'' project_node of
                Inl e \<Rightarrow> (Inl e, w1)
              | Inr True \<Rightarrow>
                  (case py_getitem project_node ''target_type'' of
                     Inl e \<Rightarrow> (Inl e, w1)
                   | Inr (Str raw) \<Rightarrow>
                       dispatch_target_type c call target_name fs (lower raw) raw target_list w1
                   | Inr (Bool b) \<Rightarrow> (Inl (AttributeError ''lower''), w1)
                   | Inr (Seq vs) \<Rightarrow> (Inl (AttributeError ''lower''), w1)
                   | Inr (Dict d) \<Rightarrow> (Inl (AttributeError ''lower''), w1))
              | Inr False \<Rightarrow>
                  if f_sourcefiles fs = [] then
                    append_new c (call HeaderOnly) target_list
                      (log (LogInfo (''No source files found for target '' @ target_name
                                     @ ''. Creating header-only target.'')) w1)
                  else
                    append_new c (call Executable) target_list
                      (log (LogInfo (decimal (length (f_sourcefiles fs))
                                     @ '' source files found for target '' @ target_name
                                     @ ''. Creating executable target.'')) w1))"

fun Project_loop ::
  "'tgt collaborators \<Rightarrow> environment \<Rightarrow> string list \<Rightarrow> dict \<Rightarrow> path \<Rightarrow> bool \<Rightarrow> string list
   \<Rightarrow> 'tgt list \<Rightarrow> 'tgt world \<Rightarrow> (exn + 'tgt list) \<times> 'tgt world" where
  "Project_loop c env target_names targets_config build_dir multiple_targets [] target_list w =
     (Inr target_list, w)"
| "Project_loop c env target_names targets_config build_dir multiple_targets (n # ns) target_list w =
     (case Project_target c env target_names targets_config build_dir multiple_targets n target_list w of
        (Inl e, w1) \<Rightarrow> (Inl e, w1)
      | (Inr target_list1, w1) \<Rightarrow>
          Project_loop c env target_names targets_config build_dir multiple_targets ns target_list1 w1)"

subsection \<open>Project\<close>

text \<open>
  The targets of a project whose \<open>targets_config\<close> is not empty: the two checks of the
  dependency analyser, then the loop over the walk. In the branch for circular
  dependencies the messages are made from \<open>non_existent_dependencies\<close>, as in the
  source.
\<close>

definition Project_targets ::
  "'tgt collaborators \<Rightarrow> environment \<Rightarrow> bool \<Rightarrow> string \<Rightarrow> dict \<Rightarrow> dict \<Rightarrow> dict \<Rightarrow> bool
   \<Rightarrow> 'tgt world \<Rightarrow> (exn + 'tgt project) \<times> 'tgt world" where
  "Project_targets c env multiple_projects nm self_targets_config self_subprojects_config
     targets_config multiple_targets w =
     (let non_existent_dependencies = find_non_existent_dependencies c targets_config in
      if non_existent_dependencies \<noteq> [] then
        (Inl (SystemExit 1),
         print_line (''Project '' @ nm @ '': non_existent_dependencies.'')
           (log (LogError (indent_messages
                   (map (\<lambda>td. ''In '' @ fst td @ '': the dependency '' @ snd td
                               @ '' does not point to a valid target'')
                      non_existent_dependencies))) w))
      else
        let circular_dependencies = find_circular_dependencies c targets_config in
        if circular_dependencies \<noteq> [] then
          (Inl (SystemExit 1),
           print_line (''Project '' @ nm @ '': circular_dependencies.'')
             (log (LogError (indent_messages
                     (map (\<lambda>td. ''In '' @ fst td @ '': circular dependency -> '' @ snd td)
                        non_existent_dependencies))) w))
        else
          let target_names = get_dependency_walk c targets_config;
              build_dir = (if multiple_projects then joinpath (env_build_directory env) nm
                           else env_build_directory env)
          in
          case Project_loop c env target_names targets_config build_dir multiple_targets
                 target_names [] w of
            (Inl e, w1) \<Rightarrow> (Inl e, w1)
          | (Inr target_list, w1) \<Rightarrow>
              (Inr \<lparr>p_name = nm, p_targets_config = self_targets_config,
                    p_subprojects_config = self_subprojects_config,
                    p_target_list = Some target_list, p_build_directory = Some build_dir\<rparr>,
               w1))"

text \<open>The two messages about targets beside projects.\<close>

definition targets_beside_projects :: "string \<Rightarrow> string" where
  "targets_beside_projects nm =
     ''Project '' @ nm @ '': Your config file specified one or more projects. In this case you are not allowed to specify targets which do not belong to a project.''"

definition targets_beside_projects_top :: string where
  "targets_beside_projects_top =
     ''On the top level, your config file specified one or more projects. In this case you are not allowed to specify targets which do not belong to a project.''"

lemma size_map_of_Seq:
  "map_of kvs k = Some (Seq vs) \<Longrightarrow> size_list size vs < Suc (size_list (size_prod (\<lambda>x. 0) size) kvs)"
  by (induction kvs) (auto split: if_splits)

text \<open>
  \<open>Project.__init__\<close>, and the list comprehension that constructs the subprojects.
  A configuration that is not a mapping has no \<open>get\<close>. The value under \<open>subproject\<close>
  is iterated: a sequence gives its elements, each constructed in turn; a mapping gives
  its keys and a string its characters, which are strings, so the first of them, if
  there is one, raises at \<open>config.get\<close>. A project name that is not a string is not
  modelled. The list of subprojects is a local variable of the source and is dropped.
\<close>

function Project_init ::
    "'tgt collaborators \<Rightarrow> environment \<Rightarrow> bool \<Rightarrow> pyvalue \<Rightarrow> 'tgt world
     \<Rightarrow> (exn + 'tgt project) \<times> 'tgt world"
  and Project_subprojects ::
    "'tgt collaborators \<Rightarrow> environment \<Rightarrow> bool \<Rightarrow> pyvalue list \<Rightarrow> 'tgt world
     \<Rightarrow> (exn + 'tgt project list) \<times> 'tgt world"
where
  "Project_init c env multiple_projects (Dict config) w =
     (case (case map_of config ''name'' of None \<Rightarrow> Inr [] | Some v \<Rightarrow> as_str v) of
        Inl e \<Rightarrow> (Inl Unmodelled, w)
      | Inr nm \<Rightarrow>
          let self_targets_config = filter (\<lambda>kv. \<not> prefix ''project'' (fst kv)) config;
              self_subprojects_config = filter (\<lambda>kv. prefix ''project'' (fst kv)) config
          in
          if self_targets_config \<noteq> [] \<and> self_subprojects_config \<noteq> [] then
            (Inl (SystemExit 1),
             log (LogError (targets_beside_projects nm)) (print_line (targets_beside_projects nm) w))
          else
            let targets_config = filter (\<lambda>kv. fst kv \<noteq> ''subproject'' \<and> fst kv \<noteq> ''name'') config;
                subprojects_config = filter (\<lambda>kv. fst kv = ''subproject'') config
            in
            if targets_config \<noteq> [] \<and> nm = [] \<and> subprojects_config \<noteq> [] then
              (Inl (SystemExit 1),
               log (LogError targets_beside_projects_top) (print_line targets_beside_projects_top w))
            else
              case (case map_of config ''subproject'' of
                      None \<Rightarrow> (Inr [], w)
                    | Some (Seq vs) \<Rightarrow> Project_subprojects c env multiple_projects vs w
                    | Some (Dict d) \<Rightarrow> (if d = [] then Inr [] else Inl (AttributeError ''get''), w)
                    | Some (Str s) \<Rightarrow> (if s = [] then Inr [] else Inl (AttributeError ''get''), w)
                    | Some (Bool b) \<Rightarrow> (Inl TypeError, w)) of
                (Inl e, w1) \<Rightarrow> (Inl e, w1)
              | (Inr subprojects, w1) \<Rightarrow>
                  let multiple_targets = (length self_targets_config > 1) in
                  if targets_config = [] then
                    (Inr \<lparr>p_name = nm, p_targets_config = self_targets_config,
                          p_subprojects_config = self_subprojects_config,
                          p_target_list = None, p_build_directory = None\<rparr>, w1)
                  else
                    Project_targets c env multiple_projects nm self_targets_config
                      self_subprojects_config targets_config multiple_targets w1)"
| "Project_init c env multiple_projects (Str s) w = (Inl (AttributeError ''get''), w)"
| "Project_init c env multiple_projects (Bool b) w = (Inl (AttributeError ''get''), w)"
| "Project_init c env multiple_projects (Seq vs) w = (Inl (AttributeError ''get''), w)"
| "Project_subprojects c env multiple_projects [] w = (Inr [], w)"
| "Project_subprojects c env multiple_projects (v # vs) w =
     (case Project_init c env multiple_projects v w of
        (Inl e, w1) \<Rightarrow> (Inl e, w1)
      | (Inr p, w1) \<Rightarrow>
          (case Project_subprojects c env multiple_projects vs w1 of
             (Inl e, w2) \<Rightarrow> (Inl e, w2)
           | (Inr ps, w2) \<Rightarrow> (Inr (p # ps), w2)))"
  by pat_completeness auto
termination
  by (relation "measure (\<lambda>x. case x of
                   Inl (c, env, mp, v, w) \<Rightarrow> size v
                 | Inr (c, env, mp, vs, w) \<Rightarrow> size_list size vs)")
     (auto dest: size_map_of_Seq)

subsection \<open>The constructor calls as they are written\<close>

text \<open>
  What the constructors of target.py make of a call of project.py. The arguments are
  passed by position: ten to \<open>Executable\<close> and to \<open>SharedLibrary\<close> (the target name, the
  working directory, the build directory, the headers, the include directories, the
  source files, the build type, the C++ driver, the target's node, the dependencies),
  eleven to \<open>StaticLibrary\<close> (the archiver after the driver), nine to \<open>HeaderOnly\<close> (no
  source files). The parameters of target.py are, in order, \<open>project_identifier\<close>,
  \<open>name\<close>, \<open>root_directory\<close>, \<open>build_directory\<close>, \<open>headers\<close>, \<open>include_directories\<close>,
  \<open>include_directories_public\<close>, for the three classes with sources \<open>source_files\<close>,
  then \<open>environment\<close>, \<open>options\<close> and \<open>dependencies\<close>. So \<open>environment\<close> receives the
  target's node in the calls of \<open>Executable\<close>, \<open>SharedLibrary\<close> and \<open>HeaderOnly\<close> and the
  archiver in the call of \<open>StaticLibrary\<close>, and the list of dependencies is received by
  \<open>options\<close> in all calls but that of \<open>StaticLibrary\<close>.
\<close>

text \<open>
  The exception of reading an attribute of the environment (\<open>clangpp\<close>, \<open>clang_ar\<close>,
  \<open>tests\<close>, \<open>examples\<close>) from a value of the configuration or from a string: a dict, a
  list, a string and a boolean have none of them.
\<close>

definition attribute_error :: "pyvalue \<Rightarrow> string \<Rightarrow> exn" where
  "attribute_error v nm = AttributeError nm"

text \<open>
  \<open>Executable.__init__\<close> and \<open>SharedLibrary.__init__\<close> evaluate the arguments of their
  call of \<open>Compilable.__init__\<close> first; the first that is not a parameter is
  \<open>[environment.clangpp, '-o']\<close>, or \<open>[environment.clangpp, '-shared', '-o']\<close>, with
  the target's node for \<open>environment\<close>.
\<close>

definition Executable_positional :: "target ctor_call \<Rightarrow> exn + target" where
  "Executable_positional call = Inl (attribute_error (cc_project_node call) ''clangpp'')"

definition SharedLibrary_positional :: "target ctor_call \<Rightarrow> exn + target" where
  "SharedLibrary_positional call = Inl (attribute_error (cc_project_node call) ''clangpp'')"

text \<open>In \<open>StaticLibrary.__init__\<close> it is \<open>[environment.clang_ar, 'rc']\<close>, with the archiver for \<open>environment\<close>.\<close>

definition StaticLibrary_positional :: "target ctor_call \<Rightarrow> exn + target" where
  "StaticLibrary_positional call =
     Inl (attribute_error (Str (env_clang_ar (cc_environment call))) ''clang_ar'')"

text \<open>
  \<open>HeaderOnly.__init__\<close> goes straight to \<open>Target.__init__\<close>, with the build directory
  of the target for \<open>root_directory\<close>, the node for \<open>environment\<close> and the build type
  for \<open>include_directories\<close>. The first statements that can raise are the reads of
  \<open>self.environment.tests\<close> and \<open>self.environment.examples\<close>, each made when the
  folder it stands for was not found on disk. Modelled from the spec: a build type is a
  member of an enumeration (section 3), so that, when both reads are skipped,
  \<open>self.include_directories += include_directories\<close> raises \<open>TypeError\<close>.
\<close>

definition HeaderOnly_positional :: "runtime \<Rightarrow> target ctor_call \<Rightarrow> exn + target" where
  "HeaderOnly_positional rt call =
     (let root = cc_target_build_dir call in
      if \<not> (path_exists rt (joinpath root ''test'') \<or> path_exists rt (joinpath root ''tests''))
      then Inl (attribute_error (cc_project_node call) ''tests'')
      else if \<not> (path_exists rt (joinpath root ''example'')
                  \<or> path_exists rt (joinpath root ''examples''))
      then Inl (attribute_error (cc_project_node call) ''examples'')
      else Inl TypeError)"

text \<open>The class that a call of project.py names, called as written; project.py calls these four.\<close>

definition positional_new_target :: "runtime \<Rightarrow> target ctor_call \<Rightarrow> exn + target" where
  "positional_new_target rt call =
     (case cc_class call of
        HeaderOnly \<Rightarrow> HeaderOnly_positional rt call
      | Executable \<Rightarrow> Executable_positional call
      | SharedLibrary \<Rightarrow> SharedLibrary_positional call
      | StaticLibrary \<Rightarrow> StaticLibrary_positional call
      | Compilable \<Rightarrow> Inl TypeError)"

section \<open>Concrete inputs\<close>

text \<open>
  A runtime for the examples: nothing but what an example names exists on disk, every
  path is its own resolution, and a set is iterated in the order of first insertion.
  Modelled from the spec: the dialect probe answers \<open>-std=c++17\<close>, and the object file of
  a source unit is \<open><object directory>/<source>.o\<close> (section 3).
\<close>

definition example_runtime :: runtime where
  "example_runtime =
     \<lparr>path_exists = (\<lambda>p. False),
      path_resolve = (\<lambda>p. p),
      list_set = remdups,
      get_dialect_string = (\<lambda>v. ''-std=c++17''),
      get_max_supported_compiler_dialect = (\<lambda>driver. ''-std=c++17''),
      object_file_of = (\<lambda>objd root src. joinpath objd (src @ ''.o''))\<rparr>"

definition example_environment :: environment where
  "example_environment =
     \<lparr>env_workingdir = ''/w'',
      env_build_directory = ''/w/build'',
      env_build_type = Release,
      env_clang = ''clang'',
      env_clangpp = ''clang++'',
      env_clang_ar = ''llvm-ar'',
      env_force_build = False,
      env_tests = False,
      env_examples = False,
      env_progress_disabled = True\<rparr>"

text \<open>The interpreter of the examples, and the platform module it gets on Linux.\<close>

definition example_python :: python_info where
  "example_python =
     \<lparr>py_include = ''/usr/include/python3.11'',
      py_data = ''/usr'',
      py_major = ''3'',
      py_minor = ''11'',
      py_ext_suffix = Str ''.cpython-311-x86_64-linux-gnu.so''\<rparr>"

definition linux_platform :: dict where
  "linux_platform = (case platform_py example_python ''linux'' of Inr m \<Rightarrow> m | Inl e \<Rightarrow> [])"

text \<open>
  Three header-only targets. \<open>hA\<close> has a public and an interface compile flag and a
  public and an interface link flag; \<open>hB\<close> depends on \<open>hA\<close>; \<open>hC\<close> depends on \<open>hB\<close> and on
  \<open>hA\<close>, so that the public include directory of \<open>hA\<close> reaches it twice, once through
  \<open>hB\<close>.
\<close>

definition hA_args :: target_args where
  "hA_args =
     \<lparr>a_project_identifier = [], a_name = ''hA'',
      a_root_directory = ''/w'', a_build_directory = ''/w/build/hA'',
      a_headers = [], a_include_directories = [''/w/hA''],
      a_include_directories_public = [''/w/hA/include''],
      a_options =
        [(''target_type'', Str ''header only''),
         (''public-flags'', Dict [(''compile'', Seq [Str ''-DPUBLIC'']), (''link'', Seq [Str ''-lm''])]),
         (''interface-flags'', Dict [(''compile'', Seq [Str ''-DIFACE'']), (''link'', Seq [Str ''-pthread''])])],
      a_dependencies = []\<rparr>"

definition hA :: target where
  "hA = projr (HeaderOnly_init example_runtime linux_platform example_environment hA_args)"

definition hB_args :: target_args where
  "hB_args =
     \<lparr>a_project_identifier = [], a_name = ''hB'',
      a_root_directory = ''/w'', a_build_directory = ''/w/build/hB'',
      a_headers = [], a_include_directories = [],
      a_include_directories_public = [''/w/hB/include''],
      a_options =
        [(''target_type'', Str ''header only''),
         (''dependencies'', Seq [Str ''hA'']),
         (''interface-flags'', Dict [(''compile'', Seq [Str ''-DHDR''])])],
      a_dependencies = [hA]\<rparr>"

definition hB :: target where
  "hB = projr (HeaderOnly_init example_runtime linux_platform example_environment hB_args)"

definition hC_args :: target_args where
  "hC_args =
     \<lparr>a_project_identifier = [], a_name = ''hC'',
      a_root_directory = ''/w'', a_build_directory = ''/w/build/hC'',
      a_headers = [], a_include_directories = [],
      a_include_directories_public = [],
      a_options =
        [(''target_type'', Str ''header only''),
         (''dependencies'', Seq [Str ''hB'', Str ''hA''])],
      a_dependencies = [hB, hA]\<rparr>"

definition hC :: target where
  "hC = projr (HeaderOnly_init example_runtime linux_platform example_environment hC_args)"

text \<open>
  The arguments of two targets with sources that depend on \<open>hA\<close>: \<open>libB\<close>, with a
  compile and a link flag of its own, and \<open>app\<close>, the dependent target of scenario 4
  of section 8.
\<close>

definition libB_args :: target_args where
  "libB_args =
     \<lparr>a_project_identifier = [], a_name = ''libB'',
      a_root_directory = ''/w'', a_build_directory = ''/w/build/libB'',
      a_headers = [], a_include_directories = [],
      a_include_directories_public = [],
      a_options =
        [(''target_type'', Str ''static library''),
         (''dependencies'', Seq [Str ''hA'']),
         (''flags'', Dict [(''compile'', Seq [Str ''-DB'']), (''link'', Seq [Str ''-s''])])],
      a_dependencies = [hA]\<rparr>"

definition app_args :: target_args where
  "app_args =
     \<lparr>a_project_identifier = [], a_name = ''app'',
      a_root_directory = ''/w'', a_build_directory = ''/w/build/app'',
      a_headers = [], a_include_directories = [],
      a_include_directories_public = [],
      a_options = [(''dependencies'', Seq [Str ''hA''])],
      a_dependencies = [hA]\<rparr>"

text \<open>
  \<open>app\<close> constructed by a call of \<open>Compilable\<close> itself, from one source file, with the
  link command, the output folder, the platform flags, the prefix and the suffix that
  the spec gives for an executable on Linux as arguments.
\<close>

definition app :: target where
  "app = projr (Compilable_init example_runtime linux_platform example_environment Compilable
                  app_args [''main.cpp''] [''clang++'', ''-o''] (Str ''bin'') (Seq []) (Str []) (Str []))"

text \<open>The same call for a target whose options name a base flag among its compile flags.\<close>

definition strict_args :: target_args where
  "strict_args =
     \<lparr>a_project_identifier = [], a_name = ''strict'',
      a_root_directory = ''/w'', a_build_directory = ''/w/build/strict'',
      a_headers = [], a_include_directories = [],
      a_include_directories_public = [],
      a_options = [(''flags'', Dict [(''compile'', Seq [Str ''-Wall''])])],
      a_dependencies = []\<rparr>"

definition strict :: target where
  "strict = projr (Compilable_init example_runtime linux_platform example_environment Compilable
                     strict_args [''main.cpp''] [''clang++'', ''-o''] (Str ''bin'') (Seq []) (Str [])
                     (Str []))"

subsection \<open>Projects\<close>

text \<open>
  For the examples a constructed target is the record of its constructor call: the
  class, the target name, the build directory and the dependencies it was called with.
\<close>

datatype built =
  Built (b_class: target_class) (b_name: string) (b_build_dir: path) (b_dependencies: "built list")

definition record_call :: "built ctor_call \<Rightarrow> exn + built" where
  "record_call call =
     Inr (Built (cc_class call) (cc_target_name call) (cc_target_build_dir call) (cc_dependencies call))"

definition string_items :: "pyvalue \<Rightarrow> string \<Rightarrow> string list" where
  "string_items node k =
     (case node of
        Dict d \<Rightarrow> (case map_of d k of Some (Seq vs) \<Rightarrow> map un_Str (filter is_Str vs) | _ \<Rightarrow> [])
      | _ \<Rightarrow> [])"

text \<open>
  Modelled from the spec: the source discovery of section 6.1, for \<open>sources\<close> given as
  literal paths: they are the source files, and there are no headers and no include
  directories.
\<close>

definition example_discover :: "pyvalue \<Rightarrow> path \<Rightarrow> path \<Rightarrow> files" where
  "example_discover node root build_dir =
     \<lparr>f_headers = [], f_include_directories = [], f_include_directories_public = [],
      f_sourcefiles = string_items node ''sources''\<rparr>"

text \<open>
  Modelled from the spec: \<open>non_existent_dependencies\<close> of section 4.2, the pairs of a
  target and a name among its dependencies that is not a key of the mapping.
\<close>

definition example_non_existent :: "dict \<Rightarrow> (string \<times> string) list" where
  "example_non_existent cfg =
     concat (map (\<lambda>kv. map (\<lambda>d. (fst kv, d))
                          (filter (\<lambda>d. map_of cfg d = None) (string_items (snd kv) ''dependencies'')))
               cfg)"

text \<open>
  Modelled from the spec: the dependency analyser of section 4.2 for one configuration,
  given by what it answers there: the cycles, each by its edges, and the walk.
\<close>

definition example_collaborators ::
  "(string \<times> string) list list \<Rightarrow> string list \<Rightarrow> built collaborators" where
  "example_collaborators cycles walk =
     \<lparr>find_non_existent_dependencies = example_non_existent,
      find_circular_dependencies = (\<lambda>cfg. cycles),
      get_dependency_walk = (\<lambda>cfg. walk),
      get_sources_and_headers = example_discover,
      new_target = record_call,
      class_of = b_class\<rparr>"

definition empty_world :: "built world" where
  "empty_world = \<lparr>logged = [], printed = [], calls = []\<rparr>"

text \<open>Scenario 5 of section 8: \<open>a\<close> depends on \<open>b\<close> and \<open>b\<close> on \<open>a\<close>.\<close>

definition cycle_config :: dict where
  "cycle_config =
     [(''a'', Dict [(''sources'', Seq [Str ''a.cpp'']), (''dependencies'', Seq [Str ''b''])]),
      (''b'', Dict [(''sources'', Seq [Str ''b.cpp'']), (''dependencies'', Seq [Str ''a''])])]"

text \<open>One target with a target type that is none of the four.\<close>

definition module_config :: dict where
  "module_config = [(''app'', Dict [(''target_type'', Str ''module''), (''sources'', Seq [Str ''main.cpp''])])]"



text \<open>An executable \<open>gen\<close>, and \<open>app\<close>, which names it among its dependencies.\<close>

definition executable_dependency_config :: dict where
  "executable_dependency_config =
     [(''gen'', Dict [(''sources'', Seq [Str ''gen.cpp''])]),
      (''app'', Dict [(''sources'', Seq [Str ''main.cpp'']), (''dependencies'', Seq [Str ''gen''])])]"

text \<open>
  The same collaborators with the constructors of target.py, called as project.py
  calls them, and the class of a target object.
\<close>

definition positional_collaborators :: "string list \<Rightarrow> target collaborators" where
  "positional_collaborators walk =
     \<lparr>find_non_existent_dependencies = example_non_existent,
      find_circular_dependencies = (\<lambda>cfg. []),
      get_dependency_walk = (\<lambda>cfg. walk),
      get_sources_and_headers = example_discover,
      new_target = positional_new_target example_runtime,
      class_of = (\<lambda>t. cls (core t))\<rparr>"

definition initial_world :: "target world" where
  "initial_world = \<lparr>logged = [], printed = [], calls = []\<rparr>"

text \<open>A static library without sources.\<close>

definition static_without_sources_config :: dict where
  "static_without_sources_config = [(''lib'', Dict [(''target_type'', Str ''static library'')])]"

section \<open>Facts about the constructors\<close>

lemma and_then_Inr [simp]:
  "and_then m f = Inr y \<longleftrightarrow> (\<exists>x. m = Inr x \<and> f x = Inr y)"
  by (cases m) auto

lemma and_then_Inl:
  "and_then m f = Inl e \<longleftrightarrow> (m = Inl e \<or> (\<exists>x. m = Inr x \<and> f x = Inl e))"
  by (cases m) auto

lemma Target_init_Inr:
  assumes "Target_init rt pmod env c a = Inr t"
  shows "\<exists>tf ef dia fl ifl pfl.
           parse_flags_options pmod (env_build_type env) (a_options a) ''flags'' = Inr fl
         \<and> parse_flags_options pmod (env_build_type env) (a_options a) ''interface-flags'' = Inr ifl
         \<and> parse_flags_options pmod (env_build_type env) (a_options a) ''public-flags'' = Inr pfl
         \<and> core t = Target_assemble rt env c a tf ef dia fl ifl pfl
         \<and> dependency_targets t = a_dependencies a
         \<and> compilable t = None"
  using assms unfolding Target_init_def by auto blast

lemma Compilable_init_Inr:
  assumes "Compilable_init rt pmod env c a srcs lc out pf pre suf = Inr t"
  shows "\<exists>t0 cp. Target_init rt pmod env c a = Inr t0
         \<and> core t = core t0 \<and> dependency_targets t = dependency_targets t0
         \<and> srcs \<noteq> [] \<and> compilable t = Some cp
         \<and> source_files cp = srcs
         \<and> length (buildables cp) = length srcs
         \<and> map ss_source_file (buildables cp) = srcs
         \<and> (\<forall>b \<in> set (buildables cp). ss_compile_flags b = DEFAULT_COMPILE_FLAGS @ compile_flags (core t))
         \<and> link_command cp = lc @ [outfile cp]"
  using assms unfolding Compilable_init_def
  by (auto simp: Let_def comp_def split: if_splits)

lemma link_against_dependencies_Inr:
  assumes "link_against_dependencies rt t0 = Inr t"
  shows "core t = core t0 \<and> dependency_targets t = dependency_targets t0
         \<and> (\<exists>cp0 cmd. compilable t0 = Some cp0 \<and> compilable t = Some (cp0\<lparr>link_command := cmd\<rparr>))"
  using assms unfolding link_against_dependencies_def
  by (auto split: option.splits)

lemma archive_dependencies_Inr:
  assumes "archive_dependencies t0 = Inr t"
  shows "core t = core t0 \<and> dependency_targets t = dependency_targets t0
         \<and> (\<exists>cp0 cmd. compilable t0 = Some cp0 \<and> compilable t = Some (cp0\<lparr>link_command := cmd\<rparr>))"
  using assms unfolding archive_dependencies_def
  by (auto split: option.splits)

text \<open>Whatever the class, the attributes of \<open>Target.__init__\<close> are those it computed.\<close>

lemma construct_Inr:
  assumes "construct rt pmod env c a srcs = Inr t"
  shows "\<exists>t0. Target_init rt pmod env c a = Inr t0
         \<and> core t = core t0 \<and> dependency_targets t = a_dependencies a"
proof (cases c)
  case HeaderOnly
  with assms show ?thesis
    by (auto simp: HeaderOnly_init_def dest: Target_init_Inr)
next
  case Executable
  with assms obtain t1 out pf pre suf where
    c: "Compilable_init rt pmod env Executable a srcs [env_clangpp env, ''-o''] out pf pre suf = Inr t1"
    and l: "link_against_dependencies rt t1 = Inr t"
    by (auto simp: Executable_init_def)
  from Compilable_init_Inr[OF c] link_against_dependencies_Inr[OF l] Executable
  show ?thesis by (auto dest: Target_init_Inr)
next
  case SharedLibrary
  with assms obtain t1 out pf pre suf where
    c: "Compilable_init rt pmod env SharedLibrary a srcs [env_clangpp env, ''-shared'', ''-o''] out pf pre suf = Inr t1"
    and l: "link_against_dependencies rt t1 = Inr t"
    by (auto simp: SharedLibrary_init_def)
  from Compilable_init_Inr[OF c] link_against_dependencies_Inr[OF l] SharedLibrary
  show ?thesis by (auto dest: Target_init_Inr)
next
  case StaticLibrary
  with assms obtain t1 out pf pre suf where
    c: "Compilable_init rt pmod env StaticLibrary a srcs [env_clang_ar env, ''rc''] out pf pre suf = Inr t1"
    and l: "archive_dependencies t1 = Inr t"
    by (auto simp: StaticLibrary_init_def)
  from Compilable_init_Inr[OF c] archive_dependencies_Inr[OF l] StaticLibrary
  show ?thesis by (auto dest: Target_init_Inr)
next
  case Compilable
  with assms show ?thesis by simp
qed

subsection \<open>The loop that propagates flags\<close>

lemma foldl_propagate_cls [simp]: "cls (foldl propagate_flags s ds) = cls s"
  by (induction ds arbitrary: s) (auto simp: propagate_flags_def)

lemma foldl_propagate_HeaderOnly:
  "cls s = HeaderOnly \<Longrightarrow>
     compile_flags_interface (foldl propagate_flags s ds)
       = compile_flags_interface s @ concat (map (\<lambda>d. compile_flags_interface (core d)) ds)
   \<and> link_flags_interface (foldl propagate_flags s ds)
       = link_flags_interface s @ concat (map (\<lambda>d. link_flags_interface (core d)) ds)
   \<and> compile_flags_public (foldl propagate_flags s ds)
       = compile_flags_public s @ concat (map (\<lambda>d. compile_flags_public (core d)) ds)
   \<and> link_flags_public (foldl propagate_flags s ds)
       = link_flags_public s @ concat (map (\<lambda>d. link_flags_public (core d)) ds)
   \<and> compile_flags (foldl propagate_flags s ds) = compile_flags s
   \<and> link_flags (foldl propagate_flags s ds) = link_flags s"
proof (induction ds arbitrary: s)
  case Nil
  then show ?case by simp
next
  case (Cons d ds)
  have c: "cls (propagate_flags s d) = HeaderOnly"
    using Cons.prems by (simp add: propagate_flags_def)
  show ?case
    using Cons.IH[OF c] Cons.prems by (simp add: propagate_flags_def)
qed

lemma foldl_propagate_StaticLibrary:
  "cls s = StaticLibrary \<Longrightarrow>
     compile_flags_interface (foldl propagate_flags s ds)
       = compile_flags_interface s @ concat (map (\<lambda>d. compile_flags_interface (core d)) ds)
   \<and> link_flags_interface (foldl propagate_flags s ds)
       = link_flags_interface s @ concat (map (\<lambda>d. link_flags_interface (core d)) ds)
   \<and> compile_flags_public (foldl propagate_flags s ds) = compile_flags_public s
   \<and> link_flags_public (foldl propagate_flags s ds) = link_flags_public s
   \<and> compile_flags (foldl propagate_flags s ds)
       = compile_flags s @ concat (map (\<lambda>d. compile_flags_public (core d)) ds)
   \<and> link_flags (foldl propagate_flags s ds)
       = link_flags s @ concat (map (\<lambda>d. link_flags_public (core d)) ds)"
proof (induction ds arbitrary: s)
  case Nil
  then show ?case by simp
next
  case (Cons d ds)
  have c: "cls (propagate_flags s d) = StaticLibrary"
    using Cons.prems by (simp add: propagate_flags_def)
  show ?case
    using Cons.IH[OF c] Cons.prems by (simp add: propagate_flags_def)
qed

lemma foldl_propagate_absorb:
  "cls s \<noteq> HeaderOnly \<and> cls s \<noteq> StaticLibrary \<Longrightarrow>
     compile_flags_interface (foldl propagate_flags s ds) = compile_flags_interface s
   \<and> link_flags_interface (foldl propagate_flags s ds) = link_flags_interface s
   \<and> compile_flags_public (foldl propagate_flags s ds) = compile_flags_public s
   \<and> link_flags_public (foldl propagate_flags s ds) = link_flags_public s
   \<and> compile_flags (foldl propagate_flags s ds)
       = compile_flags s
         @ concat (map (\<lambda>d. compile_flags_interface (core d) @ compile_flags_public (core d)) ds)
   \<and> link_flags (foldl propagate_flags s ds)
       = link_flags s
         @ concat (map (\<lambda>d. link_flags_interface (core d) @ link_flags_public (core d)) ds)"
proof (induction ds arbitrary: s)
  case Nil
  then show ?case by simp
next
  case (Cons d ds)
  have c: "cls (propagate_flags s d) \<noteq> HeaderOnly \<and> cls (propagate_flags s d) \<noteq> StaticLibrary"
    using Cons.prems by (auto simp: propagate_flags_def)
  show ?case
    using Cons.IH[OF c] Cons.prems by (auto simp: propagate_flags_def)
qed

lemma foldl_include_step_flags:
  "cls (foldl include_step s ds) = cls s
   \<and> compile_flags (foldl include_step s ds) = compile_flags s
   \<and> link_flags (foldl include_step s ds) = link_flags s
   \<and> compile_flags_interface (foldl include_step s ds) = compile_flags_interface s
   \<and> link_flags_interface (foldl include_step s ds) = link_flags_interface s
   \<and> compile_flags_public (foldl include_step s ds) = compile_flags_public s
   \<and> link_flags_public (foldl include_step s ds) = link_flags_public s"
  by (induction ds arbitrary: s) (auto simp: include_step_def)

text \<open>The six flag vectors that \<open>Target.__init__\<close> leaves, by the class of the object.\<close>

lemma Target_assemble_HeaderOnly:
  assumes "core t = Target_assemble rt env HeaderOnly a tf ef dia fl ifl pfl"
  shows "compile_flags_interface (core t)
           = concat (map (\<lambda>d. compile_flags_interface (core d)) (a_dependencies a)) @ fst ifl"
    and "link_flags_interface (core t)
           = concat (map (\<lambda>d. link_flags_interface (core d)) (a_dependencies a)) @ snd ifl"
    and "compile_flags_public (core t)
           = concat (map (\<lambda>d. compile_flags_public (core d)) (a_dependencies a)) @ fst pfl"
    and "link_flags_public (core t)
           = concat (map (\<lambda>d. link_flags_public (core d)) (a_dependencies a)) @ snd pfl"
    and "compile_flags (core t)
           = list_set rt (build_type_flags (env_build_type env) @ fst fl) @ fst pfl"
    and "link_flags (core t) = snd fl @ snd pfl"
  using assms
  by (simp_all add: Target_assemble_def Let_def foldl_propagate_HeaderOnly foldl_include_step_flags)

lemma Target_assemble_StaticLibrary:
  assumes "core t = Target_assemble rt env StaticLibrary a tf ef dia fl ifl pfl"
  shows "compile_flags_interface (core t)
           = concat (map (\<lambda>d. compile_flags_interface (core d)) (a_dependencies a)) @ fst ifl"
    and "link_flags_interface (core t)
           = concat (map (\<lambda>d. link_flags_interface (core d)) (a_dependencies a)) @ snd ifl"
    and "compile_flags_public (core t) = fst pfl"
    and "link_flags_public (core t) = snd pfl"
    and "compile_flags (core t)
           = list_set rt (build_type_flags (env_build_type env) @ fst fl
                          @ concat (map (\<lambda>d. compile_flags_public (core d)) (a_dependencies a)))
             @ fst pfl"
    and "link_flags (core t)
           = snd fl @ concat (map (\<lambda>d. link_flags_public (core d)) (a_dependencies a)) @ snd pfl"
  using assms
  by (simp_all add: Target_assemble_def Let_def foldl_propagate_StaticLibrary foldl_include_step_flags)

lemma Target_assemble_absorb:
  assumes "core t = Target_assemble rt env c a tf ef dia fl ifl pfl"
    and "c \<noteq> HeaderOnly \<and> c \<noteq> StaticLibrary"
  shows "compile_flags_interface (core t) = fst ifl"
    and "link_flags_interface (core t) = snd ifl"
    and "compile_flags_public (core t) = fst pfl"
    and "link_flags_public (core t) = snd pfl"
    and "compile_flags (core t)
           = list_set rt (build_type_flags (env_build_type env) @ fst fl
                          @ concat (map (\<lambda>d. compile_flags_interface (core d)
                                              @ compile_flags_public (core d)) (a_dependencies a)))
             @ fst pfl"
    and "link_flags (core t)
           = snd fl
             @ concat (map (\<lambda>d. link_flags_interface (core d) @ link_flags_public (core d))
                         (a_dependencies a))
             @ snd pfl"
  using assms
  by (simp_all add: Target_assemble_def Let_def foldl_propagate_absorb foldl_include_step_flags)

subsection \<open>The concrete runtime\<close>

lemma list_set_ok_example: "list_set_ok example_runtime"
  by (simp add: list_set_ok_def example_runtime_def)

lemma resolve_idempotent_example: "resolve_idempotent example_runtime"
  by (simp add: resolve_idempotent_def example_runtime_def)

subsection \<open>The loops that extend a link command\<close>

lemma fold_library_search_step:
  "fold_exn (library_search_step rt) cmd ds = Inr cmd' \<Longrightarrow>
     (\<forall>d \<in> set ds. cls (core d) \<noteq> HeaderOnly \<longrightarrow> compilable d \<noteq> None)
   \<and> cmd' = cmd @ concat (map (\<lambda>d. [''-L'', path_resolve rt (output_folder (the (compilable d)))])
                        (filter (\<lambda>d. cls (core d) \<noteq> HeaderOnly) ds))"
proof (induction ds arbitrary: cmd)
  case Nil
  then show ?case by simp
next
  case (Cons d ds)
  from Cons.prems obtain c1 where
    s: "library_search_step rt cmd d = Inr c1" and r: "fold_exn (library_search_step rt) c1 ds = Inr cmd'"
    by auto
  from s show ?case
    using Cons.IH[OF r]
    by (auto simp: library_search_step_def dep_attr_def split: if_splits option.splits)
qed

lemma fold_link_dependency_step:
  "fold_exn link_dependency_step cmd ds = Inr cmd' \<Longrightarrow>
     (\<forall>d \<in> set ds. cls (core d) \<noteq> HeaderOnly \<longrightarrow> compilable d \<noteq> None)
   \<and> cmd' = cmd @ map (\<lambda>d. ''-l'' @ outname (the (compilable d)))
                  (filter (\<lambda>d. cls (core d) \<noteq> HeaderOnly) ds)"
proof (induction ds arbitrary: cmd)
  case Nil
  then show ?case by simp
next
  case (Cons d ds)
  from Cons.prems obtain c1 where
    s: "link_dependency_step cmd d = Inr c1" and r: "fold_exn link_dependency_step c1 ds = Inr cmd'"
    by auto
  from s show ?case
    using Cons.IH[OF r]
    by (auto simp: link_dependency_step_def dep_attr_def split: if_splits option.splits)
qed

lemma fold_archive_dependency_step:
  "fold_exn archive_dependency_step cmd ds = Inr cmd' \<Longrightarrow>
     (\<forall>d \<in> set ds. cls (core d) \<noteq> HeaderOnly \<longrightarrow> compilable d \<noteq> None)
   \<and> cmd' = cmd @ concat (map (\<lambda>d. map ss_object_file (buildables (the (compilable d))))
                        (filter (\<lambda>d. cls (core d) \<noteq> HeaderOnly) ds))"
proof (induction ds arbitrary: cmd)
  case Nil
  then show ?case by simp
next
  case (Cons d ds)
  from Cons.prems obtain c1 where
    s: "archive_dependency_step cmd d = Inr c1" and r: "fold_exn archive_dependency_step c1 ds = Inr cmd'"
    by auto
  from s show ?case
    using Cons.IH[OF r]
    by (auto simp: archive_dependency_step_def dep_attr_def split: if_splits option.splits)
qed

lemma link_against_dependencies_command:
  assumes "link_against_dependencies rt t0 = Inr t" and "compilable t0 = Some cp0"
  shows "\<exists>cp. compilable t = Some cp
         \<and> buildables cp = buildables cp0 \<and> outfile cp = outfile cp0
         \<and> source_files cp = source_files cp0
         \<and> (\<forall>d \<in> set (dependency_targets t0). cls (core d) \<noteq> HeaderOnly \<longrightarrow> compilable d \<noteq> None)
         \<and> link_command cp
             = link_command cp0 @ map ss_object_file (buildables cp0)
               @ concat (map (\<lambda>d. [''-L'', path_resolve rt (output_folder (the (compilable d)))])
                           (filter (\<lambda>d. cls (core d) \<noteq> HeaderOnly) (dependency_targets t0)))
               @ link_flags (core t0)
               @ map (\<lambda>d. ''-l'' @ outname (the (compilable d)))
                   (filter (\<lambda>d. cls (core d) \<noteq> HeaderOnly) (dependency_targets t0))"
proof -
  from assms obtain cmd cmd' where
    a: "fold_exn (library_search_step rt) (link_command cp0 @ map ss_object_file (buildables cp0))
          (dependency_targets t0) = Inr cmd"
    and b: "fold_exn link_dependency_step (cmd @ link_flags (core t0)) (dependency_targets t0) = Inr cmd'"
    and t: "t = Target (core t0) (dependency_targets t0) (Some (cp0\<lparr>link_command := cmd'\<rparr>))"
    unfolding link_against_dependencies_def by auto
  from fold_library_search_step[OF a] fold_link_dependency_step[OF b] t
  show ?thesis by simp
qed

lemma archive_dependencies_command:
  assumes "archive_dependencies t0 = Inr t" and "compilable t0 = Some cp0"
  shows "\<exists>cp. compilable t = Some cp
         \<and> buildables cp = buildables cp0 \<and> outfile cp = outfile cp0
         \<and> source_files cp = source_files cp0
         \<and> (\<forall>d \<in> set (dependency_targets t0). cls (core d) \<noteq> HeaderOnly \<longrightarrow> compilable d \<noteq> None)
         \<and> link_command cp
             = link_command cp0 @ map ss_object_file (buildables cp0) @ link_flags (core t0)
               @ concat (map (\<lambda>d. map ss_object_file (buildables (the (compilable d))))
                           (filter (\<lambda>d. cls (core d) \<noteq> HeaderOnly) (dependency_targets t0)))"
proof -
  from assms obtain cmd where
    a: "fold_exn archive_dependency_step
          (link_command cp0 @ map ss_object_file (buildables cp0) @ link_flags (core t0))
          (dependency_targets t0) = Inr cmd"
    and t: "t = Target (core t0) (dependency_targets t0) (Some (cp0\<lparr>link_command := cmd\<rparr>))"
    unfolding archive_dependencies_def by auto
  from fold_archive_dependency_step[OF a] t
  show ?thesis by simp
qed

text \<open>What a successful call of a compilable class went through.\<close>

lemma construct_compilable_Inr:
  assumes "construct rt pmod env c a srcs = Inr t" and "c \<noteq> HeaderOnly"
  shows "\<exists>t1 out pf pre suf.
           Compilable_init rt pmod env c a srcs
             (if c = Executable then [env_clangpp env, ''-o'']
              else if c = SharedLibrary then [env_clangpp env, ''-shared'', ''-o'']
              else [env_clang_ar env, ''rc'']) out pf pre suf = Inr t1
         \<and> (if c = StaticLibrary then archive_dependencies t1 else link_against_dependencies rt t1) = Inr t"
  using assms
  by (cases c) (fastforce simp: Executable_init_def SharedLibrary_init_def StaticLibrary_init_def)+

subsection \<open>The loop that collects include directories\<close>

lemma foldl_include_step_dirs:
  "include_directories (foldl include_step s ds)
     = include_directories s
       @ concat (map (\<lambda>d. (if cls (core d) = HeaderOnly then include_directories (core d) else [])
                         @ include_directories_public (core d)) ds)
   \<and> include_directories_public (foldl include_step s ds)
     = include_directories_public s @ concat (map (\<lambda>d. include_directories_public (core d)) ds)"
  by (induction ds arbitrary: s) (auto simp: include_step_def)

lemma foldl_propagate_dirs:
  "include_directories (foldl propagate_flags s ds) = include_directories s
   \<and> include_directories_public (foldl propagate_flags s ds) = include_directories_public s"
  by (induction ds arbitrary: s) (auto simp: propagate_flags_def)

lemma Target_assemble_include_directories:
  assumes "core t = Target_assemble rt env c a tf ef dia fl ifl pfl"
  shows "include_directories (core t)
           = list_set rt (map (path_resolve rt)
               (a_include_directories a @ a_include_directories_public a
                @ concat (map (\<lambda>d. (if cls (core d) = HeaderOnly then include_directories (core d) else [])
                                  @ include_directories_public (core d)) (a_dependencies a))))"
    and "include_directories_public (core t)
           = (if path_exists rt (joinpath (a_root_directory a) ''include'')
              then [joinpath (a_root_directory a) ''include''] else [])
             @ a_include_directories_public a
             @ concat (map (\<lambda>d. include_directories_public (core d)) (a_dependencies a))"
  using assms
  by (simp_all add: Target_assemble_def Let_def foldl_propagate_dirs foldl_include_step_dirs)

lemma distinct_resolved_list_set:
  assumes "list_set_ok rt" and "resolve_idempotent rt"
  shows "distinct (map (path_resolve rt) (list_set rt (map (path_resolve rt) xs)))"
proof -
  let ?l = "list_set rt (map (path_resolve rt) xs)"
  from assms(1) have d: "distinct ?l" and s: "set ?l = path_resolve rt ` set xs"
    by (simp_all add: list_set_ok_def)
  have "map (path_resolve rt) ?l = ?l"
  proof (rule map_idI)
    fix p assume "p \<in> set ?l"
    with s obtain x where "p = path_resolve rt x" by auto
    with assms(2) show "path_resolve rt p = p" by (simp add: resolve_idempotent_def)
  qed
  with d show ?thesis by simp
qed

subsection \<open>One step of the loop over the walk\<close>

lemma append_new_result:
  assumes "append_new c call tlist w = (r, w')"
  shows "calls w' = calls w @ [call]" and "logged w' = logged w"
    and "\<And>e. r = Inl e \<Longrightarrow> new_target c call = Inl e"
    and "\<And>tl'. r = Inr tl' \<Longrightarrow> \<exists>t. new_target c call = Inr t \<and> tl' = tlist @ [t]"
  using assms by (auto simp: append_new_def split: sum.splits)

lemma dispatch_target_type_result:
  assumes "dispatch_target_type c mk tn fs tt raw tlist w = (r, w')"
  shows "prefix (calls w) (calls w')"
    and "prefix (logged w) (logged w')"
    and "set (drop (length (calls w)) (calls w')) \<subseteq> range mk"
    and "\<And>e. r = Inl e \<Longrightarrow> \<exists>call \<in> set (drop (length (calls w)) (calls w')). new_target c call = Inl e"
  using assms
  by (auto simp: dispatch_target_type_def append_new_def log_def
           split: if_splits sum.splits prod.splits)

lemma target_type_branch_result:
  assumes "(case py_in ''target_type'' (Dict d) of
              Inl e \<Rightarrow> (Inl e, w1)
            | Inr True \<Rightarrow>
                (case py_getitem (Dict d) ''target_type'' of
                   Inl e \<Rightarrow> (Inl e, w1)
                 | Inr (Str raw) \<Rightarrow> dispatch_target_type c mk tn fs (lower raw) raw tlist w1
                 | Inr (Bool b) \<Rightarrow> (Inl (AttributeError ''lower''), w1)
                 | Inr (Seq vs) \<Rightarrow> (Inl (AttributeError ''lower''), w1)
                 | Inr (Dict d') \<Rightarrow> (Inl (AttributeError ''lower''), w1))
            | Inr False \<Rightarrow>
                if srcs = [] then append_new c (mk HeaderOnly) tlist (log i1 w1)
                else append_new c (mk Executable) tlist (log i2 w1)) = (r, w')"
  shows "prefix (logged w1) (logged w')"
    and "prefix (calls w1) (calls w')"
    and "set (drop (length (calls w1)) (calls w')) \<subseteq> range mk"
    and "\<And>e. r = Inl e \<Longrightarrow>
           e = AttributeError ''lower''
           \<or> (\<exists>call \<in> set (drop (length (calls w1)) (calls w')). new_target c call = Inl e)"
    and "map_of d ''target_type'' = None \<Longrightarrow>
           \<exists>k. calls w' = calls w1 @ [mk k]
             \<and> (case new_target c (mk k) of
                   Inl e \<Rightarrow> r = Inl e
                 | Inr t \<Rightarrow> r = Inr (tlist @ [t]))"
proof -
  let ?P = "prefix (logged w1) (logged w') \<and> prefix (calls w1) (calls w')
    \<and> set (drop (length (calls w1)) (calls w')) \<subseteq> range mk
    \<and> (\<forall>e. r = Inl e \<longrightarrow>
           e = AttributeError ''lower''
           \<or> (\<exists>call \<in> set (drop (length (calls w1)) (calls w')). new_target c call = Inl e))
    \<and> (map_of d ''target_type'' = None \<longrightarrow>
           (\<exists>k. calls w' = calls w1 @ [mk k]
             \<and> (case new_target c (mk k) of
                   Inl e \<Rightarrow> r = Inl e
                 | Inr t \<Rightarrow> r = Inr (tlist @ [t]))))"
  have ?P
  proof (cases "map_of d ''target_type''")
    case None
    define k where "k = (if srcs = [] then HeaderOnly else Executable)"
    define i where "i = (if srcs = [] then i1 else i2)"
    from assms None have a: "append_new c (mk k) tlist (log i w1) = (r, w')"
      by (simp add: k_def i_def split: if_splits)
    note res = append_new_result[OF a]
    have l: "logged (log i w1) = logged w1 @ [i]" "calls (log i w1) = calls w1"
      by (simp_all add: log_def)
    have c1: "calls w' = calls w1 @ [mk k]"
      using res(1) l by simp
    have c2: "logged w' = logged w1 @ [i]"
      using res(2) l by simp
    have c3: "case new_target c (mk k) of Inl e \<Rightarrow> r = Inl e | Inr t \<Rightarrow> r = Inr (tlist @ [t])"
    proof (cases r)
      case (Inl e)
      with res(3) show ?thesis by simp
    next
      case (Inr tl')
      with res(4) show ?thesis by auto
    qed
    have c4: "\<forall>e. r = Inl e \<longrightarrow> new_target c (mk k) = Inl e"
      using res(3) by blast
    have p1: "prefix (logged w1) (logged w')" using c2 by simp
    have p2: "prefix (calls w1) (calls w')" using c1 by simp
    have p3: "set (drop (length (calls w1)) (calls w')) \<subseteq> range mk" using c1 by simp
    have p4: "\<forall>e. r = Inl e \<longrightarrow>
           e = AttributeError ''lower''
           \<or> (\<exists>call \<in> set (drop (length (calls w1)) (calls w')). new_target c call = Inl e)"
      using c1 c4 by simp
    have p5: "\<exists>k. calls w' = calls w1 @ [mk k]
             \<and> (case new_target c (mk k) of
                   Inl e \<Rightarrow> r = Inl e
                 | Inr t \<Rightarrow> r = Inr (tlist @ [t]))"
      using c1 c3 by blast
    from p1 p2 p3 p4 p5 show ?thesis by blast
  next
    case (Some v)
    show ?thesis
    proof (cases v)
      case (Str raw)
      with assms Some have
        a: "dispatch_target_type c mk tn fs (lower raw) raw tlist w1 = (r, w')"
        by simp
      note res = dispatch_target_type_result[OF a]
      from res Some show ?thesis by simp
    next
      case (Bool b)
      with assms Some have "r = Inl (AttributeError ''lower'')" "w' = w1" by simp_all
      with Some show ?thesis by simp
    next
      case (Seq vs)
      with assms Some have "r = Inl (AttributeError ''lower'')" "w' = w1" by simp_all
      with Some show ?thesis by simp
    next
      case (Dict d')
      with assms Some have "r = Inl (AttributeError ''lower'')" "w' = w1" by simp_all
      with Some show ?thesis by simp
    qed
  qed
  then show "prefix (logged w1) (logged w')"
    and "prefix (calls w1) (calls w')"
    and "set (drop (length (calls w1)) (calls w')) \<subseteq> range mk"
    and "\<And>e. r = Inl e \<Longrightarrow>
           e = AttributeError ''lower''
           \<or> (\<exists>call \<in> set (drop (length (calls w1)) (calls w')). new_target c call = Inl e)"
    and "map_of d ''target_type'' = None \<Longrightarrow>
           \<exists>k. calls w' = calls w1 @ [mk k]
             \<and> (case new_target c (mk k) of
                   Inl e \<Rightarrow> r = Inl e
                 | Inr t \<Rightarrow> r = Inr (tlist @ [t]))"
    by blast+
qed

subsection \<open>Constructors that never return\<close>

lemma positional_new_target_raises: "\<exists>e. positional_new_target rt call = Inl e"
  by (cases "cc_class call")
     (simp_all add: positional_new_target_def HeaderOnly_positional_def Executable_positional_def
        SharedLibrary_positional_def StaticLibrary_positional_def Let_def)

lemma map_exn_all_raise:
  assumes "map_exn f xs = Inr ys" and "\<And>x. \<exists>e. f x = Inl e"
  shows "ys = []"
proof (cases xs)
  case Nil
  with assms(1) show ?thesis by simp
next
  case (Cons x xs')
  from assms(2) obtain e where "f x = Inl e" by blast
  with assms(1) Cons show ?thesis by simp
qed

lemma resolve_dependencies_of_no_targets:
  assumes "resolve_dependencies names [] node = Inr deps"
  shows "deps = []"
proof -
  from assms obtain nms where
    m: "map_exn (\<lambda>n. and_then (index_of names n) (list_item [])) nms = Inr deps"
    unfolding resolve_dependencies_def by auto
  have "\<exists>e. and_then (index_of names n) (list_item ([] :: 'a list)) = (Inl e :: exn + 'a)" for n
    by (cases "index_of names n") (simp_all add: list_item_def)
  from map_exn_all_raise[OF m this] show ?thesis .
qed

lemma dispatch_target_type_never_constructs:
  assumes "\<And>call. \<exists>e. new_target c call = Inl e"
    and "dispatch_target_type c mk tn fs tt raw tlist w = (r, w')"
  shows "\<And>tl'. r = Inr tl' \<Longrightarrow> tl' = tlist"
    and "\<And>ts. LogErrorExecutables ts \<in> set (logged w') \<Longrightarrow> LogErrorExecutables ts \<in> set (logged w)"
proof -
  from assms(1) obtain e1 e2 e3 e4 where
    "new_target c (mk Executable) = Inl e1" "new_target c (mk SharedLibrary) = Inl e2"
    "new_target c (mk StaticLibrary) = Inl e3" "new_target c (mk HeaderOnly) = Inl e4"
    by metis
  with assms(2) show "\<And>tl'. r = Inr tl' \<Longrightarrow> tl' = tlist"
    and "\<And>ts. LogErrorExecutables ts \<in> set (logged w') \<Longrightarrow> LogErrorExecutables ts \<in> set (logged w)"
    by (auto simp: dispatch_target_type_def append_new_def log_def split: if_splits)
qed

lemma dispatch_target_type_compilable_raises:
  assumes "\<And>call. \<exists>e. new_target c call = Inl e"
    and "tt = ''executable'' \<or> tt = ''shared library'' \<or> tt = ''static library''"
  shows "\<exists>e w'. dispatch_target_type c mk tn fs tt raw tlist w = (Inl e, w')"
proof -
  from assms(1) obtain e1 e2 e3 where
    "new_target c (mk Executable) = Inl e1" "new_target c (mk SharedLibrary) = Inl e2"
    "new_target c (mk StaticLibrary) = Inl e3"
    by metis
  with assms(2) show ?thesis
    by (auto simp: dispatch_target_type_def append_new_def)
qed

lemma target_type_branch_never_constructs:
  assumes "\<And>call. \<exists>e. new_target c call = Inl e"
    and "(case py_in ''target_type'' (Dict d) of
              Inl e \<Rightarrow> (Inl e, w1)
            | Inr True \<Rightarrow>
                (case py_getitem (Dict d) ''target_type'' of
                   Inl e \<Rightarrow> (Inl e, w1)
                 | Inr (Str raw) \<Rightarrow> dispatch_target_type c mk tn fs (lower raw) raw tlist w1
                 | Inr (Bool b) \<Rightarrow> (Inl (AttributeError ''lower''), w1)
                 | Inr (Seq vs) \<Rightarrow> (Inl (AttributeError ''lower''), w1)
                 | Inr (Dict d') \<Rightarrow> (Inl (AttributeError ''lower''), w1))
            | Inr False \<Rightarrow>
                if srcs = [] then append_new c (mk HeaderOnly) tlist (log (LogInfo i1) w1)
                else append_new c (mk Executable) tlist (log (LogInfo i2) w1)) = (r, w')"
  shows "\<And>tl'. r = Inr tl' \<Longrightarrow> tl' = tlist"
    and "\<And>ts. LogErrorExecutables ts \<in> set (logged w') \<Longrightarrow> LogErrorExecutables ts \<in> set (logged w1)"
proof -
  have "(\<forall>tl'. r = Inr tl' \<longrightarrow> tl' = tlist)
      \<and> (\<forall>ts. LogErrorExecutables ts \<in> set (logged w') \<longrightarrow> LogErrorExecutables ts \<in> set (logged w1))"
  proof (cases "map_of d ''target_type''")
    case None
    define k where "k = (if srcs = [] then HeaderOnly else Executable)"
    define i where "i = (if srcs = [] then i1 else i2)"
    from assms(2) None have a: "append_new c (mk k) tlist (log (LogInfo i) w1) = (r, w')"
      by (simp add: k_def i_def split: if_splits)
    from assms(1) obtain e where "new_target c (mk k) = Inl e" by blast
    with a show ?thesis
      by (auto simp: append_new_def log_def)
  next
    case (Some v)
    show ?thesis
    proof (cases v)
      case (Str raw)
      with assms(2) Some have
        a: "dispatch_target_type c mk tn fs (lower raw) raw tlist w1 = (r, w')"
        by simp
      from dispatch_target_type_never_constructs[OF assms(1) a] show ?thesis by blast
    next
      case (Bool b)
      with assms(2) Some have "r = Inl (AttributeError ''lower'')" "w' = w1" by simp_all
      then show ?thesis by simp
    next
      case (Seq vs)
      with assms(2) Some have "r = Inl (AttributeError ''lower'')" "w' = w1" by simp_all
      then show ?thesis by simp
    next
      case (Dict d')
      with assms(2) Some have "r = Inl (AttributeError ''lower'')" "w' = w1" by simp_all
      then show ?thesis by simp
    qed
  qed
  then show "\<And>tl'. r = Inr tl' \<Longrightarrow> tl' = tlist"
    and "\<And>ts. LogErrorExecutables ts \<in> set (logged w') \<Longrightarrow> LogErrorExecutables ts \<in> set (logged w1)"
    by blast+
qed

lemma Project_target_never_constructs:
  assumes nt: "\<And>call. \<exists>e. new_target c call = Inl e"
    and run: "Project_target c env target_names targets_config build_dir multiple_targets target_name
                [] w = (r, w')"
  shows "(\<forall>tl. r = Inr tl \<longrightarrow> tl = [])
       \<and> (\<forall>ts. LogErrorExecutables ts \<in> set (logged w') \<longrightarrow> LogErrorExecutables ts \<in> set (logged w))
       \<and> (\<forall>call \<in> set (calls w'). call \<in> set (calls w) \<or> cc_dependencies call = [])"
proof (cases "py_getitem (Dict targets_config) target_name")
  case (Inl e)
  with run show ?thesis by (auto simp: Project_target_def)
next
  case g: (Inr project_node)
  show ?thesis
  proof (cases "resolve_dependencies target_names ([] :: 'a list) project_node")
    case (Inl e)
    with run g show ?thesis by (auto simp: Project_target_def Let_def)
  next
    case rd: (Inr dependencies)
    from resolve_dependencies_of_no_targets[OF rd] have d0: "dependencies = []" .
    define w1 where
      "w1 = (if filter (\<lambda>t. class_of c t = Executable) dependencies \<noteq> []
             then log (LogErrorExecutables (filter (\<lambda>t. class_of c t = Executable) dependencies)) w
             else w)"
    define fs where "fs = get_sources_and_headers c project_node (env_workingdir env)
                            (target_build_dir_of build_dir multiple_targets target_name)"
    define mk where "mk = (\<lambda>k. \<lparr>cc_class = k, cc_target_name = target_name,
                                  cc_workingdir = env_workingdir env,
                                  cc_target_build_dir =
                                    target_build_dir_of build_dir multiple_targets target_name,
                                  cc_headers = f_headers fs,
                                  cc_include_directories = f_include_directories fs,
                                  cc_sourcefiles =
                                    (if k = HeaderOnly then None else Some (f_sourcefiles fs)),
                                  cc_environment = env,
                                  cc_project_node = project_node,
                                  cc_dependencies = dependencies\<rparr>)"
    have w1: "w1 = w"
      by (simp add: w1_def d0)
    have mk: "cc_dependencies (mk k) = []" for k
      by (simp add: mk_def d0)
    from rd obtain d where node: "project_node = Dict d"
      by (cases project_node) (simp_all add: resolve_dependencies_def)
    have step: "(case py_in ''target_type'' (Dict d) of
                Inl e \<Rightarrow> (Inl e, w1)
              | Inr True \<Rightarrow>
                  (case py_getitem (Dict d) ''target_type'' of
                     Inl e \<Rightarrow> (Inl e, w1)
                   | Inr (Str raw) \<Rightarrow>
                       dispatch_target_type c mk target_name fs (lower raw) raw [] w1
                   | Inr (Bool b) \<Rightarrow> (Inl (AttributeError ''lower''), w1)
                   | Inr (Seq vs) \<Rightarrow> (Inl (AttributeError ''lower''), w1)
                   | Inr (Dict d') \<Rightarrow> (Inl (AttributeError ''lower''), w1))
              | Inr False \<Rightarrow>
                  if f_sourcefiles fs = [] then
                    append_new c (mk HeaderOnly) []
                      (log (LogInfo (''No source files found for target '' @ target_name
                                     @ ''. Creating header-only target.'')) w1)
                  else
                    append_new c (mk Executable) []
                      (log (LogInfo (decimal (length (f_sourcefiles fs))
                                     @ '' source files found for target '' @ target_name
                                     @ ''. Creating executable target.'')) w1)) = (r, w')"
      using run
      unfolding Project_target_def g sum.case Let_def rd w1_def[symmetric] fs_def[symmetric]
      unfolding mk_def node .
    note res = target_type_branch_result[OF step]
    note nev = target_type_branch_never_constructs[OF nt step]
    have 1: "\<forall>tl. r = Inr tl \<longrightarrow> tl = []"
      using nev(1) by blast
    have 2: "\<forall>ts. LogErrorExecutables ts \<in> set (logged w') \<longrightarrow> LogErrorExecutables ts \<in> set (logged w)"
      using nev(2) w1 by blast
    have 3: "\<forall>call \<in> set (calls w'). call \<in> set (calls w) \<or> cc_dependencies call = []"
    proof
      fix call assume "call \<in> set (calls w')"
      moreover from res(2) obtain cs where cs: "calls w' = calls w1 @ cs"
        by (auto simp: prefix_def)
      moreover from res(3) cs have "set cs \<subseteq> range mk" by simp
      ultimately show "call \<in> set (calls w) \<or> cc_dependencies call = []"
        using w1 mk by auto
    qed
    from 1 2 3 show ?thesis by (intro conjI)
  qed
qed

lemma Project_loop_never_constructs:
  assumes nt: "\<And>call. \<exists>e. new_target c call = Inl e"
  shows "Project_loop c env target_names targets_config build_dir multiple_targets ns [] w = (r, w')
         \<Longrightarrow> (\<forall>tl. r = Inr tl \<longrightarrow> tl = [])
           \<and> (\<forall>ts. LogErrorExecutables ts \<in> set (logged w') \<longrightarrow> LogErrorExecutables ts \<in> set (logged w))
           \<and> (\<forall>call \<in> set (calls w'). call \<in> set (calls w) \<or> cc_dependencies call = [])"
proof (induction ns arbitrary: w)
  case Nil
  then show ?case by auto
next
  case (Cons n ns)
  obtain r1 w1 where
    s: "Project_target c env target_names targets_config build_dir multiple_targets n [] w = (r1, w1)"
    by (cases "Project_target c env target_names targets_config build_dir multiple_targets n [] w")
  note p = Project_target_never_constructs[OF nt s]
  show ?case
  proof (cases r1)
    case (Inl e)
    with Cons.prems s have "r = Inl e" "w' = w1" by simp_all
    with p show ?thesis by simp
  next
    case (Inr tl1)
    with p have "tl1 = []" by simp
    with Cons.prems s Inr have
      "Project_loop c env target_names targets_config build_dir multiple_targets ns [] w1 = (r, w')"
      by simp
    from Cons.IH[OF this] p show ?thesis by blast
  qed
qed

section \<open>Flag propagation\<close>

text \<open>
  C1. Flag propagation from the dependencies happens once, in \<open>Target.__init__\<close>, and
  follows the visibility table. For the target \<open>t\<close> that \<open>Target.__init__\<close> leaves when
  it runs on an object of class \<open>c\<close> with the arguments \<open>a\<close>, whose options give the
  flags \<open>fl\<close>, the interface flags \<open>ifl\<close> and the public flags \<open>pfl\<close> (each a pair of
  compile and link flags):
  a header-only target has the interface flags of its dependencies, in order, then its
  own, as its interface flags, and their public flags, then its own, as its public
  flags, and none of them among its private flags;
  a static library forwards the interface flags in the same way, applies the public
  flags of its dependencies to its private compile and link flags, and forwards none of
  them as public flags;
  an executable and a shared library (and an object of the class \<open>Compilable\<close> itself)
  apply both the interface and the public flags of every dependency to their private
  flags, and their own interface and public vectors hold nothing of a dependency. The
  private compile flags pass through a set, so they are stated as a set.
\<close>

theorem flag_propagation_visibility_table:
  assumes "list_set_ok rt"
    and "Target_init rt pmod env c a = Inr t"
    and "parse_flags_options pmod (env_build_type env) (a_options a) ''flags'' = Inr fl"
    and "parse_flags_options pmod (env_build_type env) (a_options a) ''interface-flags'' = Inr ifl"
    and "parse_flags_options pmod (env_build_type env) (a_options a) ''public-flags'' = Inr pfl"
  shows
    "(c = HeaderOnly \<longrightarrow>
        compile_flags_interface (core t)
          = concat (map (\<lambda>d. compile_flags_interface (core d)) (a_dependencies a)) @ fst ifl
      \<and> link_flags_interface (core t)
          = concat (map (\<lambda>d. link_flags_interface (core d)) (a_dependencies a)) @ snd ifl
      \<and> compile_flags_public (core t)
          = concat (map (\<lambda>d. compile_flags_public (core d)) (a_dependencies a)) @ fst pfl
      \<and> link_flags_public (core t)
          = concat (map (\<lambda>d. link_flags_public (core d)) (a_dependencies a)) @ snd pfl
      \<and> set (compile_flags (core t))
          = set (build_type_flags (env_build_type env)) \<union> set (fst fl) \<union> set (fst pfl)
      \<and> link_flags (core t) = snd fl @ snd pfl)
   \<and> (c = StaticLibrary \<longrightarrow>
        compile_flags_interface (core t)
          = concat (map (\<lambda>d. compile_flags_interface (core d)) (a_dependencies a)) @ fst ifl
      \<and> link_flags_interface (core t)
          = concat (map (\<lambda>d. link_flags_interface (core d)) (a_dependencies a)) @ snd ifl
      \<and> set (compile_flags (core t))
          = set (build_type_flags (env_build_type env)) \<union> set (fst fl)
            \<union> (\<Union>d \<in> set (a_dependencies a). set (compile_flags_public (core d)))
            \<union> set (fst pfl)
      \<and> link_flags (core t)
          = snd fl @ concat (map (\<lambda>d. link_flags_public (core d)) (a_dependencies a)) @ snd pfl
      \<and> compile_flags_public (core t) = fst pfl
      \<and> link_flags_public (core t) = snd pfl)
   \<and> (c = Executable \<or> c = SharedLibrary \<or> c = Compilable \<longrightarrow>
        set (compile_flags (core t))
          = set (build_type_flags (env_build_type env)) \<union> set (fst fl)
            \<union> (\<Union>d \<in> set (a_dependencies a).
                  set (compile_flags_interface (core d)) \<union> set (compile_flags_public (core d)))
            \<union> set (fst pfl)
      \<and> link_flags (core t)
          = snd fl
            @ concat (map (\<lambda>d. link_flags_interface (core d) @ link_flags_public (core d))
                        (a_dependencies a))
            @ snd pfl
      \<and> compile_flags_interface (core t) = fst ifl
      \<and> link_flags_interface (core t) = snd ifl
      \<and> compile_flags_public (core t) = fst pfl
      \<and> link_flags_public (core t) = snd pfl)"
proof -
  from Target_init_Inr[OF assms(2)] assms(3-5) obtain tf ef dia where
    asm: "core t = Target_assemble rt env c a tf ef dia fl ifl pfl"
    by auto
  have s: "\<And>xs. set (list_set rt xs) = set xs"
    using assms(1) by (simp add: list_set_ok_def)
  show ?thesis
  proof (intro conjI impI)
    assume c: "c = HeaderOnly"
    note h = Target_assemble_HeaderOnly[OF asm[unfolded c]]
    show "compile_flags_interface (core t)
          = concat (map (\<lambda>d. compile_flags_interface (core d)) (a_dependencies a)) @ fst ifl"
      by (rule h(1))
    show "link_flags_interface (core t)
          = concat (map (\<lambda>d. link_flags_interface (core d)) (a_dependencies a)) @ snd ifl"
      by (rule h(2))
    show "compile_flags_public (core t)
          = concat (map (\<lambda>d. compile_flags_public (core d)) (a_dependencies a)) @ fst pfl"
      by (rule h(3))
    show "link_flags_public (core t)
          = concat (map (\<lambda>d. link_flags_public (core d)) (a_dependencies a)) @ snd pfl"
      by (rule h(4))
    show "set (compile_flags (core t))
          = set (build_type_flags (env_build_type env)) \<union> set (fst fl) \<union> set (fst pfl)"
      by (auto simp: h(5) s)
    show "link_flags (core t) = snd fl @ snd pfl"
      by (rule h(6))
  next
    assume c: "c = StaticLibrary"
    note h = Target_assemble_StaticLibrary[OF asm[unfolded c]]
    show "compile_flags_interface (core t)
          = concat (map (\<lambda>d. compile_flags_interface (core d)) (a_dependencies a)) @ fst ifl"
      by (rule h(1))
    show "link_flags_interface (core t)
          = concat (map (\<lambda>d. link_flags_interface (core d)) (a_dependencies a)) @ snd ifl"
      by (rule h(2))
    show "set (compile_flags (core t))
          = set (build_type_flags (env_build_type env)) \<union> set (fst fl)
            \<union> (\<Union>d \<in> set (a_dependencies a). set (compile_flags_public (core d)))
            \<union> set (fst pfl)"
      by (auto simp: h(5) s)
    show "link_flags (core t)
          = snd fl @ concat (map (\<lambda>d. link_flags_public (core d)) (a_dependencies a)) @ snd pfl"
      by (rule h(6))
    show "compile_flags_public (core t) = fst pfl"
      by (rule h(3))
    show "link_flags_public (core t) = snd pfl"
      by (rule h(4))
  next
    assume "c = Executable \<or> c = SharedLibrary \<or> c = Compilable"
    then have c: "c \<noteq> HeaderOnly \<and> c \<noteq> StaticLibrary" by auto
    note h = Target_assemble_absorb[OF asm c]
    show "set (compile_flags (core t))
          = set (build_type_flags (env_build_type env)) \<union> set (fst fl)
            \<union> (\<Union>d \<in> set (a_dependencies a).
                  set (compile_flags_interface (core d)) \<union> set (compile_flags_public (core d)))
            \<union> set (fst pfl)"
      by (auto simp: h(5) s)
    show "link_flags (core t)
          = snd fl
            @ concat (map (\<lambda>d. link_flags_interface (core d) @ link_flags_public (core d))
                        (a_dependencies a))
            @ snd pfl"
      by (rule h(6))
    show "compile_flags_interface (core t) = fst ifl"
      by (rule h(1))
    show "link_flags_interface (core t) = snd ifl"
      by (rule h(2))
    show "compile_flags_public (core t) = fst pfl"
      by (rule h(3))
    show "link_flags_public (core t) = snd pfl"
      by (rule h(4))
  qed
qed

theorem flag_propagation_visibility_table_witness:
  "list_set_ok example_runtime
   \<and> platform_py example_python ''linux'' = Inr linux_platform
   \<and> HeaderOnly_init example_runtime linux_platform example_environment hB_args = Inr hB
   \<and> compile_flags_interface (core hB) = [''-DIFACE'', ''-DHDR'']
   \<and> link_flags_interface (core hB) = [''-pthread'']
   \<and> compile_flags_public (core hB) = [''-DPUBLIC'']
   \<and> link_flags_public (core hB) = [''-lm'']
   \<and> set (compile_flags (core hB)) = set [''-O3'', ''-DNDEBUG'']
   \<and> link_flags (core hB) = []
   \<and> (\<exists>t. Target_init example_runtime linux_platform example_environment StaticLibrary libB_args
             = Inr t
          \<and> compile_flags_interface (core t) = [''-DIFACE'']
          \<and> link_flags_interface (core t) = [''-pthread'']
          \<and> set (compile_flags (core t)) = set [''-O3'', ''-DNDEBUG'', ''-DB'', ''-DPUBLIC'']
          \<and> link_flags (core t) = [''-s'', ''-lm'']
          \<and> compile_flags_public (core t) = []
          \<and> link_flags_public (core t) = [])
   \<and> (\<exists>t. Target_init example_runtime linux_platform example_environment Executable app_args
             = Inr t
          \<and> set (compile_flags (core t)) = set [''-O3'', ''-DNDEBUG'', ''-DIFACE'', ''-DPUBLIC'']
          \<and> link_flags (core t) = [''-pthread'', ''-lm'']
          \<and> compile_flags_interface (core t) = []
          \<and> link_flags_interface (core t) = []
          \<and> compile_flags_public (core t) = []
          \<and> link_flags_public (core t) = [])
   \<and> (\<exists>t. Target_init example_runtime linux_platform example_environment SharedLibrary app_args
             = Inr t
          \<and> set (compile_flags (core t)) = set [''-O3'', ''-DNDEBUG'', ''-DIFACE'', ''-DPUBLIC'']
          \<and> link_flags (core t) = [''-pthread'', ''-lm'']
          \<and> compile_flags_interface (core t) = []
          \<and> link_flags_interface (core t) = []
          \<and> compile_flags_public (core t) = []
          \<and> link_flags_public (core t) = [])
   \<and> Compilable_init example_runtime linux_platform example_environment Compilable app_args
       [''main.cpp''] [''clang++'', ''-o''] (Str ''bin'') (Seq []) (Str []) (Str []) = Inr app
   \<and> set (compile_flags (core app)) = set [''-O3'', ''-DNDEBUG'', ''-DIFACE'', ''-DPUBLIC'']
   \<and> link_flags (core app) = [''-pthread'', ''-lm'']
   \<and> compile_flags_interface (core app) = []
   \<and> link_flags_interface (core app) = []
   \<and> compile_flags_public (core app) = []
   \<and> link_flags_public (core app) = []"
proof -
  note ok = list_set_ok_example
  let ?rt = example_runtime and ?pm = linux_platform and ?env = example_environment
  let ?tb = "projr (Target_init ?rt ?pm ?env StaticLibrary libB_args)"
  let ?te = "projr (Target_init ?rt ?pm ?env Executable app_args)"
  let ?ts = "projr (Target_init ?rt ?pm ?env SharedLibrary app_args)"
  let ?tc = "projr (Target_init ?rt ?pm ?env Compilable app_args)"
  have pm: "platform_py example_python ''linux'' = Inr linux_platform"
    by code_simp
  have hb: "HeaderOnly_init ?rt ?pm ?env hB_args = Inr hB"
    by code_simp
  then have th: "Target_init ?rt ?pm ?env HeaderOnly hB_args = Inr hB"
    by (simp only: HeaderOnly_init_def)
  have hf: "parse_flags_options ?pm (env_build_type ?env) (a_options hB_args) ''flags'' = Inr ([], [])"
    by code_simp
  have hi: "parse_flags_options ?pm (env_build_type ?env) (a_options hB_args) ''interface-flags''
              = Inr ([''-DHDR''], [])"
    by code_simp
  have hp: "parse_flags_options ?pm (env_build_type ?env) (a_options hB_args) ''public-flags''
              = Inr ([], [])"
    by code_simp
  have tb: "Target_init ?rt ?pm ?env StaticLibrary libB_args = Inr ?tb"
    by code_simp
  have bf: "parse_flags_options ?pm (env_build_type ?env) (a_options libB_args) ''flags''
              = Inr ([''-DB''], [''-s''])"
    by code_simp
  have bi: "parse_flags_options ?pm (env_build_type ?env) (a_options libB_args) ''interface-flags''
              = Inr ([], [])"
    by code_simp
  have bp: "parse_flags_options ?pm (env_build_type ?env) (a_options libB_args) ''public-flags''
              = Inr ([], [])"
    by code_simp
  have te: "Target_init ?rt ?pm ?env Executable app_args = Inr ?te"
    by code_simp
  have ts: "Target_init ?rt ?pm ?env SharedLibrary app_args = Inr ?ts"
    by code_simp
  have tc: "Target_init ?rt ?pm ?env Compilable app_args = Inr ?tc"
    by code_simp
  have ca: "Compilable_init ?rt ?pm ?env Compilable app_args [''main.cpp''] [''clang++'', ''-o'']
              (Str ''bin'') (Seq []) (Str []) (Str []) = Inr app"
    by code_simp
  from Compilable_init_Inr[OF ca] tc have cc: "core app = core ?tc"
    by auto
  have af: "parse_flags_options ?pm (env_build_type ?env) (a_options app_args) ''flags'' = Inr ([], [])"
    by code_simp
  have ai: "parse_flags_options ?pm (env_build_type ?env) (a_options app_args) ''interface-flags''
              = Inr ([], [])"
    by code_simp
  have ap: "parse_flags_options ?pm (env_build_type ?env) (a_options app_args) ''public-flags''
              = Inr ([], [])"
    by code_simp
  have deps: "a_dependencies hB_args = [hA]" "a_dependencies libB_args = [hA]"
    "a_dependencies app_args = [hA]"
    by (simp_all add: hB_args_def libB_args_def app_args_def)
  have A: "compile_flags_interface (core hA) = [''-DIFACE'']"
    "link_flags_interface (core hA) = [''-pthread'']"
    "compile_flags_public (core hA) = [''-DPUBLIC'']"
    "link_flags_public (core hA) = [''-lm'']"
    by code_simp+
  have rel: "build_type_flags (env_build_type ?env) = [''-O3'', ''-DNDEBUG'']"
    by code_simp
  from flag_propagation_visibility_table[OF ok th hf hi hp]
  have 1: "compile_flags_interface (core hB) = [''-DIFACE'', ''-DHDR'']
          \<and> link_flags_interface (core hB) = [''-pthread'']
          \<and> compile_flags_public (core hB) = [''-DPUBLIC'']
          \<and> link_flags_public (core hB) = [''-lm'']
          \<and> set (compile_flags (core hB)) = set [''-O3'', ''-DNDEBUG'']
          \<and> link_flags (core hB) = []"
    by (simp add: deps A rel insert_commute)
  from flag_propagation_visibility_table[OF ok tb bf bi bp]
  have 2: "compile_flags_interface (core ?tb) = [''-DIFACE'']
          \<and> link_flags_interface (core ?tb) = [''-pthread'']
          \<and> set (compile_flags (core ?tb)) = set [''-O3'', ''-DNDEBUG'', ''-DB'', ''-DPUBLIC'']
          \<and> link_flags (core ?tb) = [''-s'', ''-lm'']
          \<and> compile_flags_public (core ?tb) = []
          \<and> link_flags_public (core ?tb) = []"
    by (simp add: deps A rel insert_commute)
  from flag_propagation_visibility_table[OF ok te af ai ap]
  have 3: "set (compile_flags (core ?te)) = set [''-O3'', ''-DNDEBUG'', ''-DIFACE'', ''-DPUBLIC'']
          \<and> link_flags (core ?te) = [''-pthread'', ''-lm'']
          \<and> compile_flags_interface (core ?te) = []
          \<and> link_flags_interface (core ?te) = []
          \<and> compile_flags_public (core ?te) = []
          \<and> link_flags_public (core ?te) = []"
    by (simp add: deps A rel insert_commute)
  from flag_propagation_visibility_table[OF ok ts af ai ap]
  have 4: "set (compile_flags (core ?ts)) = set [''-O3'', ''-DNDEBUG'', ''-DIFACE'', ''-DPUBLIC'']
          \<and> link_flags (core ?ts) = [''-pthread'', ''-lm'']
          \<and> compile_flags_interface (core ?ts) = []
          \<and> link_flags_interface (core ?ts) = []
          \<and> compile_flags_public (core ?ts) = []
          \<and> link_flags_public (core ?ts) = []"
    by (simp add: deps A rel insert_commute)
  from flag_propagation_visibility_table[OF ok tc af ai ap]
  have 5: "set (compile_flags (core app)) = set [''-O3'', ''-DNDEBUG'', ''-DIFACE'', ''-DPUBLIC'']
          \<and> link_flags (core app) = [''-pthread'', ''-lm'']
          \<and> compile_flags_interface (core app) = []
          \<and> link_flags_interface (core app) = []
          \<and> compile_flags_public (core app) = []
          \<and> link_flags_public (core app) = []"
    unfolding cc by (simp add: deps A rel insert_commute)
  from tb 2 have s2: "\<exists>t. Target_init ?rt ?pm ?env StaticLibrary libB_args = Inr t
          \<and> compile_flags_interface (core t) = [''-DIFACE'']
          \<and> link_flags_interface (core t) = [''-pthread'']
          \<and> set (compile_flags (core t)) = set [''-O3'', ''-DNDEBUG'', ''-DB'', ''-DPUBLIC'']
          \<and> link_flags (core t) = [''-s'', ''-lm'']
          \<and> compile_flags_public (core t) = []
          \<and> link_flags_public (core t) = []"
    by blast
  from te 3 have s3: "\<exists>t. Target_init ?rt ?pm ?env Executable app_args = Inr t
          \<and> set (compile_flags (core t)) = set [''-O3'', ''-DNDEBUG'', ''-DIFACE'', ''-DPUBLIC'']
          \<and> link_flags (core t) = [''-pthread'', ''-lm'']
          \<and> compile_flags_interface (core t) = []
          \<and> link_flags_interface (core t) = []
          \<and> compile_flags_public (core t) = []
          \<and> link_flags_public (core t) = []"
    by blast
  from ts 4 have s4: "\<exists>t. Target_init ?rt ?pm ?env SharedLibrary app_args = Inr t
          \<and> set (compile_flags (core t)) = set [''-O3'', ''-DNDEBUG'', ''-DIFACE'', ''-DPUBLIC'']
          \<and> link_flags (core t) = [''-pthread'', ''-lm'']
          \<and> compile_flags_interface (core t) = []
          \<and> link_flags_interface (core t) = []
          \<and> compile_flags_public (core t) = []
          \<and> link_flags_public (core t) = []"
    by blast
  from ok pm hb 1 s2 s3 s4 ca 5 show ?thesis
    by blast
qed

section \<open>Link commands\<close>

text \<open>
  The link command of a target that a compilable class did construct, for any module
  in the place of platform.py. With \<open>libs\<close> the dependencies that are not header-only,
  in order:
  an executable's command is the C++ driver, \<open>-o\<close>, the output file, its own object
  files, \<open>-L\<close> and the resolved output folder of each of \<open>libs\<close>, the target's link
  flags, then \<open>-l<outname>\<close> for each of \<open>libs\<close>;
  a shared library's is the same with \<open>-shared\<close> before \<open>-o\<close>;
  a static library's is the archiver, \<open>rc\<close>, the output file, its own object files, its
  link flags, then the object files of each of \<open>libs\<close>, and nothing else: no \<open>-L\<close> or
  \<open>-l\<close> entry is made for a dependency.
  The own object files are those of the source units, one per source file, in order.
\<close>

lemma link_command_of_constructed:
  assumes "construct rt pmod env c a srcs = Inr t"
    and "c \<noteq> HeaderOnly"
    and "libs = filter (\<lambda>d. cls (core d) \<noteq> HeaderOnly) (a_dependencies a)"
  shows "\<exists>cp. compilable t = Some cp
         \<and> map ss_source_file (buildables cp) = srcs
         \<and> (\<forall>d \<in> set libs. compilable d \<noteq> None)
         \<and> (c = Executable \<longrightarrow>
               link_command cp
                 = [env_clangpp env, ''-o'', outfile cp]
                   @ map ss_object_file (buildables cp)
                   @ concat (map (\<lambda>d. [''-L'', path_resolve rt (output_folder (the (compilable d)))]) libs)
                   @ link_flags (core t)
                   @ map (\<lambda>d. ''-l'' @ outname (the (compilable d))) libs)
         \<and> (c = SharedLibrary \<longrightarrow>
               link_command cp
                 = [env_clangpp env, ''-shared'', ''-o'', outfile cp]
                   @ map ss_object_file (buildables cp)
                   @ concat (map (\<lambda>d. [''-L'', path_resolve rt (output_folder (the (compilable d)))]) libs)
                   @ link_flags (core t)
                   @ map (\<lambda>d. ''-l'' @ outname (the (compilable d))) libs)
         \<and> (c = StaticLibrary \<longrightarrow>
               link_command cp
                 = [env_clang_ar env, ''rc'', outfile cp]
                   @ map ss_object_file (buildables cp)
                   @ link_flags (core t)
                   @ concat (map (\<lambda>d. map ss_object_file (buildables (the (compilable d)))) libs))"
proof -
  from construct_compilable_Inr[OF assms(1,2)] obtain t1 out pf pre suf where
    c1: "Compilable_init rt pmod env c a srcs
           (if c = Executable then [env_clangpp env, ''-o'']
            else if c = SharedLibrary then [env_clangpp env, ''-shared'', ''-o'']
            else [env_clang_ar env, ''rc'']) out pf pre suf = Inr t1"
    and l: "(if c = StaticLibrary then archive_dependencies t1 else link_against_dependencies rt t1) = Inr t"
    by blast
  from Compilable_init_Inr[OF c1] obtain t0 cp0 where
    t0: "Target_init rt pmod env c a = Inr t0"
    and core1: "core t1 = core t0" and deps1: "dependency_targets t1 = dependency_targets t0"
    and cp0: "compilable t1 = Some cp0"
    and srcs0: "map ss_source_file (buildables cp0) = srcs"
    and lc0: "link_command cp0
               = (if c = Executable then [env_clangpp env, ''-o'']
                  else if c = SharedLibrary then [env_clangpp env, ''-shared'', ''-o'']
                  else [env_clang_ar env, ''rc'']) @ [outfile cp0]"
    by blast
  from Target_init_Inr[OF t0] have deps0: "dependency_targets t0 = a_dependencies a"
    by blast
  show ?thesis
  proof (cases "c = StaticLibrary")
    case True
    with l have "archive_dependencies t1 = Inr t" by simp
    from archive_dependencies_command[OF this cp0] archive_dependencies_Inr[OF this]
    show ?thesis
      using True srcs0 lc0 deps1 deps0 assms(3) by auto
  next
    case False
    with l have "link_against_dependencies rt t1 = Inr t" by simp
    from link_against_dependencies_command[OF this cp0] link_against_dependencies_Inr[OF this]
    show ?thesis
      using False srcs0 lc0 deps1 deps0 assms(2,3) by (cases c) auto
  qed
qed

text \<open>
  C3 gives the templates that the statements after the call of \<open>Compilable.__init__\<close>
  in the three constructors follow, as the lemma above shows, and that no run of these
  constructors reaches: with the module that platform.py is, on each of the three
  platforms it supports, every constructor of a compilable class raises
  \<open>AttributeError\<close> at the first platform constant it reads, before \<open>Compilable.__init__\<close>
  is called, whatever the arguments. No target of these classes is constructed and no
  link command is assembled.
\<close>

theorem link_command_never_assembled:
  assumes "platform_py py sys_platform = Inr m"
  shows "Executable_init rt m env a srcs = Inl (AttributeError ''EXECUTABLE_OUTPUT'')
       \<and> SharedLibrary_init rt m env a srcs = Inl (AttributeError ''SHARED_LIBRARY_OUTPUT'')
       \<and> StaticLibrary_init rt m env a srcs = Inl (AttributeError ''STATIC_LIBRARY_OUTPUT'')
       \<and> (\<forall>c t. c \<noteq> HeaderOnly \<longrightarrow> construct rt m env c a srcs \<noteq> Inr t)"
proof -
  from assms have
    m: "module_attr m ''EXECUTABLE_OUTPUT'' = Inl (AttributeError ''EXECUTABLE_OUTPUT'')"
       "module_attr m ''SHARED_LIBRARY_OUTPUT'' = Inl (AttributeError ''SHARED_LIBRARY_OUTPUT'')"
       "module_attr m ''STATIC_LIBRARY_OUTPUT'' = Inl (AttributeError ''STATIC_LIBRARY_OUTPUT'')"
    by (auto simp: platform_py_def module_attr_def split: if_splits)
  have 1: "Executable_init rt m env a srcs = Inl (AttributeError ''EXECUTABLE_OUTPUT'')"
    by (simp add: Executable_init_def m)
  have 2: "SharedLibrary_init rt m env a srcs = Inl (AttributeError ''SHARED_LIBRARY_OUTPUT'')"
    by (simp add: SharedLibrary_init_def m)
  have 3: "StaticLibrary_init rt m env a srcs = Inl (AttributeError ''STATIC_LIBRARY_OUTPUT'')"
    by (simp add: StaticLibrary_init_def m)
  have 4: "construct rt m env c a srcs \<noteq> Inr t" if "c \<noteq> HeaderOnly" for c t
    using that 1 2 3 by (cases c) simp_all
  from 1 2 3 4 show ?thesis by blast
qed

theorem link_command_never_assembled_witness:
  "platform_py example_python ''linux'' = Inr linux_platform
   \<and> construct example_runtime linux_platform example_environment HeaderOnly hA_args [] = Inr hA
   \<and> Executable_init example_runtime linux_platform example_environment app_args [''main.cpp'']
       = Inl (AttributeError ''EXECUTABLE_OUTPUT'')
   \<and> SharedLibrary_init example_runtime linux_platform example_environment app_args [''main.cpp'']
       = Inl (AttributeError ''SHARED_LIBRARY_OUTPUT'')
   \<and> StaticLibrary_init example_runtime linux_platform example_environment libB_args [''b.cpp'']
       = Inl (AttributeError ''STATIC_LIBRARY_OUTPUT'')
   \<and> Executable \<noteq> HeaderOnly
   \<and> construct example_runtime linux_platform example_environment Executable app_args [''main.cpp'']
       = Inl (AttributeError ''EXECUTABLE_OUTPUT'')"
proof -
  have pm: "platform_py example_python ''linux'' = Inr linux_platform"
    by code_simp
  have h: "construct example_runtime linux_platform example_environment HeaderOnly hA_args [] = Inr hA"
    by code_simp
  note e = link_command_never_assembled[OF pm, of example_runtime example_environment app_args
             "[''main.cpp'']"]
  note s = link_command_never_assembled[OF pm, of example_runtime example_environment libB_args
             "[''b.cpp'']"]
  from e have 1: "Executable_init example_runtime linux_platform example_environment app_args
                    [''main.cpp''] = Inl (AttributeError ''EXECUTABLE_OUTPUT'')"
    by (rule conjunct1)
  from e have 2: "SharedLibrary_init example_runtime linux_platform example_environment app_args
                    [''main.cpp''] = Inl (AttributeError ''SHARED_LIBRARY_OUTPUT'')"
    by (rule conjunct1[OF conjunct2])
  from s have 3: "StaticLibrary_init example_runtime linux_platform example_environment libB_args
                    [''b.cpp''] = Inl (AttributeError ''STATIC_LIBRARY_OUTPUT'')"
    by (rule conjunct1[OF conjunct2[OF conjunct2]])
  have 4: "Executable \<noteq> HeaderOnly" by simp
  from 1 have 5: "construct example_runtime linux_platform example_environment Executable app_args
                    [''main.cpp''] = Inl (AttributeError ''EXECUTABLE_OUTPUT'')"
    by simp
  from pm h 1 2 3 4 5 show ?thesis by (intro conjI)
qed

section \<open>Default compile flags\<close>

lemma base_flags_are_no_build_type_flags:
  "set DEFAULT_COMPILE_FLAGS \<inter> set (build_type_flags bt) = {}"
  by (cases bt)
     (simp_all add: DEFAULT_COMPILE_FLAGS_def DEFAULT_COMPILE_FLAGS_RELEASE_def
        DEFAULT_COMPILE_FLAGS_DEBUG_def DEFAULT_COMPILE_FLAGS_RELWITHDEBINFO_def
        DEFAULT_COMPILE_FLAGS_COVERAGE_def)

lemma private_compile_flags_of_compilable:
  assumes "list_set_ok rt"
    and "core t = Target_assemble rt env c a tf ef dia fl ifl pfl"
    and "c \<noteq> HeaderOnly"
  shows "set (compile_flags (core t))
         = set (build_type_flags (env_build_type env)) \<union> set (fst fl) \<union> set (fst pfl)
           \<union> (if c = StaticLibrary
              then (\<Union>d \<in> set (a_dependencies a). set (compile_flags_public (core d)))
              else (\<Union>d \<in> set (a_dependencies a).
                      set (compile_flags_interface (core d)) \<union> set (compile_flags_public (core d))))"
proof -
  have s: "\<And>xs. set (list_set rt xs) = set xs"
    using assms(1) by (simp add: list_set_ok_def)
  show ?thesis
  proof (cases "c = StaticLibrary")
    case True
    from Target_assemble_StaticLibrary(5)[OF assms(2)[unfolded True]] True show ?thesis
      by (auto simp: s)
  next
    case False
    with assms(3) have "c \<noteq> HeaderOnly \<and> c \<noteq> StaticLibrary" by simp
    from Target_assemble_absorb(5)[OF assms(2) this] False show ?thesis
      by (auto simp: s)
  qed
qed

text \<open>
  C4, as the claim states it, fails: the constructor does not put the base flags into
  the target's private compile-flag vector. The target \<open>app\<close> of scenario 4, made by a
  call of \<open>Compilable\<close> for Release, has the private vector below, with none of \<open>-Wall
  -Wextra -Wpedantic -Werror\<close> in it. The list of a source unit does not hold each
  base flag exactly once either: the source unit of \<open>strict\<close>, whose options name
  \<open>-Wall\<close> among the compile flags, has it twice.
\<close>

theorem base_flags_not_in_private_vector:
  "platform_py example_python ''linux'' = Inr linux_platform
   \<and> construct example_runtime linux_platform example_environment HeaderOnly hA_args [] = Inr hA
   \<and> Compilable_init example_runtime linux_platform example_environment Compilable app_args
       [''main.cpp''] [''clang++'', ''-o''] (Str ''bin'') (Seq []) (Str []) (Str []) = Inr app
   \<and> compile_flags (core app) = [''-O3'', ''-DNDEBUG'', ''-DIFACE'', ''-DPUBLIC'']
   \<and> set DEFAULT_COMPILE_FLAGS \<inter> set (compile_flags (core app)) = {}
   \<and> Compilable_init example_runtime linux_platform example_environment Compilable strict_args
       [''main.cpp''] [''clang++'', ''-o''] (Str ''bin'') (Seq []) (Str []) (Str []) = Inr strict
   \<and> map ss_compile_flags (buildables (the (compilable strict)))
       = [[''-Wall'', ''-Wextra'', ''-Wpedantic'', ''-Werror'', ''-O3'', ''-DNDEBUG'', ''-Wall'']]
   \<and> map (\<lambda>b. count_list (ss_compile_flags b) ''-Wall'') (buildables (the (compilable strict)))
       = [2]"
  by code_simp

text \<open>
  C4, amended. For every target that \<open>Compilable.__init__\<close> constructs, the private
  compile-flag vector holds the defaults of the build type, the compile flags of the
  options (the private and the public ones) and those received from the dependencies,
  and nothing else: a base flag is in it only when the options or a dependency bring
  it. There is one source unit for each source file, and the compile-flag list of
  every source unit is the four base flags followed by the private vector. So every
  source unit has each base flag once more than the private vector has it: exactly
  once when neither the options nor a dependency bring that flag.
\<close>

theorem base_flags_prepended_per_source_unit:
  assumes "list_set_ok rt"
    and "Compilable_init rt pmod env c a srcs lc out pf pre suf = Inr t"
    and "c \<noteq> HeaderOnly"
  shows "\<exists>cp fl pfl. compilable t = Some cp
         \<and> srcs \<noteq> []
         \<and> map ss_source_file (buildables cp) = srcs
         \<and> parse_flags_options pmod (env_build_type env) (a_options a) ''flags'' = Inr fl
         \<and> parse_flags_options pmod (env_build_type env) (a_options a) ''public-flags'' = Inr pfl
         \<and> set (compile_flags (core t))
             = set (build_type_flags (env_build_type env)) \<union> set (fst fl) \<union> set (fst pfl)
               \<union> (if c = StaticLibrary
                  then (\<Union>d \<in> set (a_dependencies a). set (compile_flags_public (core d)))
                  else (\<Union>d \<in> set (a_dependencies a).
                          set (compile_flags_interface (core d))
                          \<union> set (compile_flags_public (core d))))
         \<and> set DEFAULT_COMPILE_FLAGS \<inter> set (build_type_flags (env_build_type env)) = {}
         \<and> (\<forall>b \<in> set (buildables cp).
               ss_compile_flags b = DEFAULT_COMPILE_FLAGS @ compile_flags (core t))
         \<and> (\<forall>f \<in> set DEFAULT_COMPILE_FLAGS. \<forall>b \<in> set (buildables cp).
               count_list (ss_compile_flags b) f = 1 + count_list (compile_flags (core t)) f)"
proof -
  from Compilable_init_Inr[OF assms(2)] obtain t0 cp where
    t0: "Target_init rt pmod env c a = Inr t0"
    and ct: "core t = core t0"
    and ne: "srcs \<noteq> []"
    and cp: "compilable t = Some cp"
    and srcs0: "map ss_source_file (buildables cp) = srcs"
    and fl0: "\<forall>b \<in> set (buildables cp). ss_compile_flags b = DEFAULT_COMPILE_FLAGS @ compile_flags (core t)"
    by blast
  from Target_init_Inr[OF t0] ct obtain tf ef dia fl ifl pfl where
    pf: "parse_flags_options pmod (env_build_type env) (a_options a) ''flags'' = Inr fl"
    and pp: "parse_flags_options pmod (env_build_type env) (a_options a) ''public-flags'' = Inr pfl"
    and asm: "core t = Target_assemble rt env c a tf ef dia fl ifl pfl"
    by auto
  note priv = private_compile_flags_of_compilable[OF assms(1) asm assms(3)]
  note disj = base_flags_are_no_build_type_flags[of "env_build_type env"]
  have once: "\<And>f. f \<in> set DEFAULT_COMPILE_FLAGS \<Longrightarrow> count_list DEFAULT_COMPILE_FLAGS f = 1"
    by (auto simp: DEFAULT_COMPILE_FLAGS_def)
  have cnt: "\<forall>f \<in> set DEFAULT_COMPILE_FLAGS. \<forall>b \<in> set (buildables cp).
               count_list (ss_compile_flags b) f = 1 + count_list (compile_flags (core t)) f"
    using fl0 once by simp
  show ?thesis
    by (intro exI[of _ cp] exI[of _ fl] exI[of _ pfl] conjI)
       (rule cp ne srcs0 pf pp priv disj fl0 cnt)+
qed

theorem base_flags_prepended_per_source_unit_witness:
  "list_set_ok example_runtime
   \<and> Compilable \<noteq> HeaderOnly
   \<and> platform_py example_python ''linux'' = Inr linux_platform
   \<and> Compilable_init example_runtime linux_platform example_environment Compilable app_args
       [''main.cpp''] [''clang++'', ''-o''] (Str ''bin'') (Seq []) (Str []) (Str []) = Inr app
   \<and> (\<exists>cp. compilable app = Some cp
         \<and> map ss_source_file (buildables cp) = [''main.cpp'']
         \<and> set (compile_flags (core app)) = set [''-O3'', ''-DNDEBUG'', ''-DIFACE'', ''-DPUBLIC'']
         \<and> map ss_compile_flags (buildables cp)
             = [[''-Wall'', ''-Wextra'', ''-Wpedantic'', ''-Werror'',
                 ''-O3'', ''-DNDEBUG'', ''-DIFACE'', ''-DPUBLIC'']]
         \<and> list_all (\<lambda>b. list_all (\<lambda>f. count_list (ss_compile_flags b) f = 1) DEFAULT_COMPILE_FLAGS)
              (buildables cp))"
proof -
  note ok = list_set_ok_example
  have ne: "Compilable \<noteq> HeaderOnly" by simp
  have pm: "platform_py example_python ''linux'' = Inr linux_platform"
    by code_simp
  have c: "Compilable_init example_runtime linux_platform example_environment Compilable app_args
             [''main.cpp''] [''clang++'', ''-o''] (Str ''bin'') (Seq []) (Str []) (Str []) = Inr app"
    by code_simp
  have v: "compile_flags (core app) = [''-O3'', ''-DNDEBUG'', ''-DIFACE'', ''-DPUBLIC'']"
    by code_simp
  have d: "DEFAULT_COMPILE_FLAGS = [''-Wall'', ''-Wextra'', ''-Wpedantic'', ''-Werror'']"
    by (simp add: DEFAULT_COMPILE_FLAGS_def)
  from base_flags_prepended_per_source_unit[OF ok c ne] obtain cp where
    cp: "compilable app = Some cp"
    and src: "map ss_source_file (buildables cp) = [''main.cpp'']"
    and fl: "\<forall>b \<in> set (buildables cp). ss_compile_flags b = DEFAULT_COMPILE_FLAGS @ compile_flags (core app)"
    and once: "\<forall>f \<in> set DEFAULT_COMPILE_FLAGS. \<forall>b \<in> set (buildables cp).
                 count_list (ss_compile_flags b) f = 1 + count_list (compile_flags (core app)) f"
    by (elim exE conjE) (rule that, assumption+)
  from src obtain b where b: "buildables cp = [b]"
    by (cases "buildables cp") auto
  from fl b have fb: "ss_compile_flags b = DEFAULT_COMPILE_FLAGS @ compile_flags (core app)"
    by simp
  have 1: "map ss_compile_flags (buildables cp)
             = [[''-Wall'', ''-Wextra'', ''-Wpedantic'', ''-Werror'',
                 ''-O3'', ''-DNDEBUG'', ''-DIFACE'', ''-DPUBLIC'']]"
    using b fb by (simp add: v d)
  have 2: "list_all (\<lambda>b. list_all (\<lambda>f. count_list (ss_compile_flags b) f = 1) DEFAULT_COMPILE_FLAGS)
              (buildables cp)"
    using once b by (simp add: v d list_all_iff)
  have 3: "set (compile_flags (core app)) = set [''-O3'', ''-DNDEBUG'', ''-DIFACE'', ''-DPUBLIC'']"
    by (simp only: v)
  show ?thesis
    by (intro conjI exI[of _ cp]) (rule ok ne pm c cp src 1 2 3)+
qed

section \<open>Include directories\<close>

text \<open>
  C9, as the claim states it, fails for the public list: only the private list passes
  through a set. The header-only target \<open>hC\<close> depends on \<open>hB\<close> and on \<open>hA\<close>, and \<open>hB\<close>
  depends on \<open>hA\<close>; the public include directory of \<open>hA\<close> reaches \<open>hC\<close> through both
  and stands twice in its public list.
\<close>

theorem public_include_directories_repeat:
  "platform_py example_python ''linux'' = Inr linux_platform
   \<and> construct example_runtime linux_platform example_environment HeaderOnly hA_args [] = Inr hA
   \<and> construct example_runtime linux_platform example_environment HeaderOnly hB_args [] = Inr hB
   \<and> construct example_runtime linux_platform example_environment HeaderOnly hC_args [] = Inr hC
   \<and> include_directories_public (core hC)
       = [''/w/hB/include'', ''/w/hA/include'', ''/w/hA/include'']
   \<and> \<not> distinct (map (path_resolve example_runtime) (include_directories_public (core hC)))"
  by code_simp

text \<open>
  C9, amended. For a target of any kind, after construction the private
  include-directory list, the one the compile commands are made from, has no two
  entries whose resolved paths are equal, also when a directory reached the target
  through several dependencies: it is a set's listing of the resolved directories of
  the arguments and of the dependencies (the public ones of every dependency, the
  private ones too of a header-only dependency). The public list is forwarded as it
  was collected: the default \<open>include\<close> folder if it exists, the public directories of
  the arguments, then those of each dependency, with no removal of duplicates.
  This holds on a file system where resolving a resolved path changes nothing.
\<close>

theorem private_include_directories_duplicate_free:
  assumes "list_set_ok rt"
    and "resolve_idempotent rt"
    and "construct rt pmod env c a srcs = Inr t"
  shows "distinct (map (path_resolve rt) (include_directories (core t)))
       \<and> set (include_directories (core t))
           = path_resolve rt `
               (set (a_include_directories a) \<union> set (a_include_directories_public a)
                \<union> (\<Union>d \<in> set (a_dependencies a).
                      (if cls (core d) = HeaderOnly then set (include_directories (core d)) else {})
                      \<union> set (include_directories_public (core d))))
       \<and> include_directories_public (core t)
           = (if path_exists rt (joinpath (a_root_directory a) ''include'')
              then [joinpath (a_root_directory a) ''include''] else [])
             @ a_include_directories_public a
             @ concat (map (\<lambda>d. include_directories_public (core d)) (a_dependencies a))"
proof -
  from assms(3) obtain t0 where
    t0: "Target_init rt pmod env c a = Inr t0" and ct: "core t = core t0"
    using construct_Inr by blast
  from Target_init_Inr[OF t0] ct obtain tf ef dia fl ifl pfl where
    asm: "core t = Target_assemble rt env c a tf ef dia fl ifl pfl"
    by auto
  note inc = Target_assemble_include_directories[OF asm]
  have s: "\<And>xs. set (list_set rt xs) = set xs"
    using assms(1) by (simp add: list_set_ok_def)
  have 1: "distinct (map (path_resolve rt) (include_directories (core t)))"
    unfolding inc(1) by (rule distinct_resolved_list_set[OF assms(1,2)])
  have e: "set (a_include_directories a @ a_include_directories_public a
                @ concat (map (\<lambda>d. (if cls (core d) = HeaderOnly then include_directories (core d) else [])
                                  @ include_directories_public (core d)) (a_dependencies a)))
           = set (a_include_directories a) \<union> set (a_include_directories_public a)
             \<union> (\<Union>d \<in> set (a_dependencies a).
                   (if cls (core d) = HeaderOnly then set (include_directories (core d)) else {})
                   \<union> set (include_directories_public (core d)))"
    by (auto split: if_splits)
  have 2: "set (include_directories (core t))
           = path_resolve rt `
               (set (a_include_directories a) \<union> set (a_include_directories_public a)
                \<union> (\<Union>d \<in> set (a_dependencies a).
                      (if cls (core d) = HeaderOnly then set (include_directories (core d)) else {})
                      \<union> set (include_directories_public (core d))))"
    unfolding inc(1) s by (simp only: set_map e)
  from 1 2 inc(2) show ?thesis by blast
qed

theorem private_include_directories_duplicate_free_witness:
  "list_set_ok example_runtime
   \<and> resolve_idempotent example_runtime
   \<and> platform_py example_python ''linux'' = Inr linux_platform
   \<and> construct example_runtime linux_platform example_environment HeaderOnly hC_args [] = Inr hC
   \<and> include_directories (core hC) = [''/w/hB/include'', ''/w/hA'', ''/w/hA/include'']
   \<and> distinct (map (path_resolve example_runtime) (include_directories (core hC)))"
proof -
  have pm: "platform_py example_python ''linux'' = Inr linux_platform"
    by code_simp
  have c: "construct example_runtime linux_platform example_environment HeaderOnly hC_args []
             = Inr hC"
    by code_simp
  have v: "include_directories (core hC) = [''/w/hB/include'', ''/w/hA'', ''/w/hA/include'']"
    by code_simp
  from private_include_directories_duplicate_free[OF list_set_ok_example resolve_idempotent_example c]
  have "distinct (map (path_resolve example_runtime) (include_directories (core hC)))"
    by (rule conjunct1)
  with list_set_ok_example resolve_idempotent_example pm c v show ?thesis
    by (intro conjI)
qed

section \<open>Compilable targets have sources\<close>

text \<open>
  C10. Constructing a target of a compilable class with an empty list of source files
  raises an error in the constructor: no such call returns a target, be it a call of
  one of the three classes of project.py or of \<open>Compilable\<close> itself, and when
  \<open>Target.__init__\<close> has returned, what \<open>Compilable.__init__\<close> raises next is the
  \<open>RuntimeError\<close> that names the target and its class. So every target that
  \<open>Compilable.__init__\<close> did construct has at least one source file, and one source
  unit for each. In the loop of project.py a target whose \<open>target_type\<close> is, in lower
  case, \<open>executable\<close>, \<open>shared library\<close> or \<open>static library\<close> ends the loop with an
  exception, raised when its dependencies are looked up or by the constructor call,
  and leaves no target: with the constructors called as project.py calls them, that
  is so with or without source files.
\<close>

theorem compilable_without_sources_raises:
  assumes "c \<noteq> HeaderOnly"
  shows "(\<exists>e. construct rt pmod env c a [] = Inl e)
       \<and> (\<forall>lc out pf pre suf. \<exists>e. Compilable_init rt pmod env c a [] lc out pf pre suf = Inl e)
       \<and> (\<forall>t0 lc out pf pre suf.
            Target_init rt pmod env c a = Inr t0 \<longrightarrow>
            Compilable_init rt pmod env c a [] lc out pf pre suf
              = Inl (RuntimeError (no_sources_message (core t0))))
       \<and> (\<forall>srcs lc out pf pre suf t.
            Compilable_init rt pmod env c a srcs lc out pf pre suf = Inr t \<longrightarrow>
            srcs \<noteq> []
            \<and> (\<exists>cp. compilable t = Some cp \<and> source_files cp = srcs
                     \<and> length (buildables cp) = length srcs))
       \<and> (\<forall>col target_names targets_config build_dir multiple_targets target_name target_list
             (w :: target world) node raw.
            new_target col = positional_new_target rt \<longrightarrow>
            map_of targets_config target_name = Some (Dict node) \<longrightarrow>
            map_of node ''target_type'' = Some (Str raw) \<longrightarrow>
            lower raw \<in> {''executable'', ''shared library'', ''static library''} \<longrightarrow>
            (\<exists>e w'. Project_target col env target_names targets_config build_dir multiple_targets
                       target_name target_list w = (Inl e, w')))"
proof -
  have 2: "\<exists>e. Compilable_init rt pmod env c a [] lc out pf pre suf = Inl e"
    for lc out pf pre suf
  proof (cases "Compilable_init rt pmod env c a [] lc out pf pre suf")
    case (Inl e)
    then show ?thesis by blast
  next
    case (Inr t)
    from Compilable_init_Inr[OF Inr] show ?thesis by blast
  qed
  have 1: "\<exists>e. construct rt pmod env c a [] = Inl e"
  proof (cases "construct rt pmod env c a []")
    case (Inl e)
    then show ?thesis by blast
  next
    case (Inr t)
    from construct_compilable_Inr[OF Inr assms] obtain t1 lc out pf pre suf where
      "Compilable_init rt pmod env c a [] lc out pf pre suf = Inr t1"
      by blast
    from Compilable_init_Inr[OF this] show ?thesis by blast
  qed
  have 3: "Compilable_init rt pmod env c a [] lc out pf pre suf
             = Inl (RuntimeError (no_sources_message (core t0)))"
    if "Target_init rt pmod env c a = Inr t0" for t0 lc out pf pre suf
    using that by (simp add: Compilable_init_def)
  have 4: "srcs \<noteq> [] \<and> (\<exists>cp. compilable t = Some cp \<and> source_files cp = srcs
                   \<and> length (buildables cp) = length srcs)"
    if "Compilable_init rt pmod env c a srcs lc out pf pre suf = Inr t" for srcs lc out pf pre suf t
    using Compilable_init_Inr[OF that] by blast
  have 5: "\<exists>e w'. Project_target col env target_names targets_config build_dir multiple_targets
                     target_name target_list w = (Inl e, w')"
    if nt: "new_target col = positional_new_target rt"
      and g: "map_of targets_config target_name = Some (Dict node)"
      and ty: "map_of node ''target_type'' = Some (Str raw)"
      and tt: "lower raw \<in> {''executable'', ''shared library'', ''static library''}"
    for col target_names targets_config build_dir multiple_targets target_name target_list
      and w :: "target world" and node raw
  proof (cases "resolve_dependencies target_names target_list (Dict node)")
    case (Inl e)
    with g show ?thesis by (simp add: Project_target_def Let_def)
  next
    case (Inr dependencies)
    have r: "\<exists>e. new_target col call = Inl e" for call
      unfolding nt by (rule positional_new_target_raises)
    from tt have tt': "lower raw = ''executable'' \<or> lower raw = ''shared library''
                       \<or> lower raw = ''static library''"
      by simp
    have "\<exists>e w'. dispatch_target_type col mk target_name fs (lower raw) raw target_list w1 = (Inl e, w')"
      for mk fs w1
      by (rule dispatch_target_type_compilable_raises[OF r tt'])
    with g ty Inr show ?thesis
      by (simp add: Project_target_def Let_def)
  qed
  from 2 have c2: "\<forall>lc out pf pre suf. \<exists>e. Compilable_init rt pmod env c a [] lc out pf pre suf = Inl e"
    by (intro allI)
  from 3 have c3: "\<forall>t0 lc out pf pre suf.
            Target_init rt pmod env c a = Inr t0 \<longrightarrow>
            Compilable_init rt pmod env c a [] lc out pf pre suf
              = Inl (RuntimeError (no_sources_message (core t0)))"
    by (intro allI impI)
  from 4 have c4: "\<forall>srcs lc out pf pre suf t.
            Compilable_init rt pmod env c a srcs lc out pf pre suf = Inr t \<longrightarrow>
            srcs \<noteq> []
            \<and> (\<exists>cp. compilable t = Some cp \<and> source_files cp = srcs
                     \<and> length (buildables cp) = length srcs)"
    by (intro allI impI)
  from 5 have c5: "\<forall>col target_names targets_config build_dir multiple_targets target_name target_list
             (w :: target world) node raw.
            new_target col = positional_new_target rt \<longrightarrow>
            map_of targets_config target_name = Some (Dict node) \<longrightarrow>
            map_of node ''target_type'' = Some (Str raw) \<longrightarrow>
            lower raw \<in> {''executable'', ''shared library'', ''static library''} \<longrightarrow>
            (\<exists>e w'. Project_target col env target_names targets_config build_dir multiple_targets
                       target_name target_list w = (Inl e, w'))"
    by (intro allI impI)
  from 1 c2 c3 c4 c5 show ?thesis by (intro conjI)
qed

theorem compilable_without_sources_raises_witness:
  "Compilable \<noteq> HeaderOnly
   \<and> platform_py example_python ''linux'' = Inr linux_platform
   \<and> construct example_runtime linux_platform example_environment HeaderOnly hA_args [] = Inr hA
   \<and> Compilable_init example_runtime linux_platform example_environment Compilable
       app_args [] [''clang++'', ''-o''] (Str ''bin'') (Seq []) (Str []) (Str [])
     = Inl (RuntimeError
              (''[app]: ERROR: Target was defined as a <class '' @ [CHR 0x27]
               @ ''clang_build.target.Compilable'' @ [CHR 0x27]
               @ ''> but no source files were found''))
   \<and> Compilable_init example_runtime linux_platform example_environment Compilable
       app_args [''main.cpp''] [''clang++'', ''-o''] (Str ''bin'') (Seq []) (Str []) (Str [])
     = Inr app
   \<and> (\<exists>cp. compilable app = Some cp \<and> source_files cp = [''main.cpp'']
          \<and> length (buildables cp) = 1)
   \<and> new_target (positional_collaborators [''lib'']) = positional_new_target example_runtime
   \<and> map_of static_without_sources_config ''lib'' = Some (Dict [(''target_type'', Str ''static library'')])
   \<and> lower ''static library'' \<in> {''executable'', ''shared library'', ''static library''}
   \<and> Project_target (positional_collaborators [''lib'']) example_environment [''lib'']
       static_without_sources_config ''/w/build'' False ''lib'' [] initial_world
     = (Inl (AttributeError ''clang_ar''),
        \<lparr>logged = [], printed = [],
          calls = [\<lparr>cc_class = StaticLibrary, cc_target_name = ''lib'', cc_workingdir = ''/w'',
                     cc_target_build_dir = ''/w/build'', cc_headers = [],
                     cc_include_directories = [], cc_sourcefiles = Some [],
                     cc_environment = example_environment,
                     cc_project_node = Dict [(''target_type'', Str ''static library'')],
                     cc_dependencies = []\<rparr>]\<rparr>)"
proof -
  let ?rt = example_runtime and ?pm = linux_platform and ?env = example_environment
  let ?t0 = "projr (Target_init ?rt ?pm ?env Compilable app_args)"
  let ?c = "positional_collaborators [''lib'']"
  let ?w = "\<lparr>logged = [], printed = [],
             calls = [\<lparr>cc_class = StaticLibrary, cc_target_name = ''lib'', cc_workingdir = ''/w'',
                        cc_target_build_dir = ''/w/build'', cc_headers = [],
                        cc_include_directories = [], cc_sourcefiles = Some [],
                        cc_environment = example_environment,
                        cc_project_node = Dict [(''target_type'', Str ''static library'')],
                        cc_dependencies = ([] :: target list)\<rparr>]\<rparr>"
  have ne: "Compilable \<noteq> HeaderOnly" by simp
  note th = compilable_without_sources_raises[OF ne, of ?rt ?pm ?env app_args]
  have pm: "platform_py example_python ''linux'' = Inr linux_platform"
    by code_simp
  have h: "construct ?rt ?pm ?env HeaderOnly hA_args [] = Inr hA"
    by code_simp
  have t0: "Target_init ?rt ?pm ?env Compilable app_args = Inr ?t0"
    by code_simp
  have msg: "no_sources_message (core ?t0)
               = ''[app]: ERROR: Target was defined as a <class '' @ [CHR 0x27]
                 @ ''clang_build.target.Compilable'' @ [CHR 0x27]
                 @ ''> but no source files were found''"
    by code_simp
  have c: "Compilable_init ?rt ?pm ?env Compilable app_args [''main.cpp''] [''clang++'', ''-o'']
             (Str ''bin'') (Seq []) (Str []) (Str []) = Inr app"
    by code_simp
  note th3 = th[THEN conjunct2, THEN conjunct2, THEN conjunct1, rule_format]
  note th4 = th[THEN conjunct2, THEN conjunct2, THEN conjunct2, THEN conjunct1, rule_format]
  note th5 = th[THEN conjunct2, THEN conjunct2, THEN conjunct2, THEN conjunct2, rule_format]
  have 1: "Compilable_init ?rt ?pm ?env Compilable app_args [] [''clang++'', ''-o'']
             (Str ''bin'') (Seq []) (Str []) (Str [])
           = Inl (RuntimeError
                  (''[app]: ERROR: Target was defined as a <class '' @ [CHR 0x27]
                   @ ''clang_build.target.Compilable'' @ [CHR 0x27]
                   @ ''> but no source files were found''))"
    unfolding msg[symmetric] by (rule th3[OF t0])
  from th4[OF c] have 2: "\<exists>cp. compilable app = Some cp \<and> source_files cp = [''main.cpp'']
          \<and> length (buildables cp) = 1"
    by simp
  have nt: "new_target ?c = positional_new_target example_runtime"
    by (simp add: positional_collaborators_def)
  have g: "map_of static_without_sources_config ''lib''
             = Some (Dict [(''target_type'', Str ''static library'')])"
    by code_simp
  have ty: "map_of [(''target_type'', Str ''static library'')] ''target_type''
              = Some (Str ''static library'')"
    by simp
  have tt: "lower ''static library'' \<in> {''executable'', ''shared library'', ''static library''}"
    by code_simp
  from th5[OF nt g ty tt]
  have raises: "\<exists>e w'. Project_target ?c ?env [''lib''] static_without_sources_config ''/w/build''
                         False ''lib'' [] initial_world = (Inl e, w')" .
  have 3: "Project_target ?c ?env [''lib''] static_without_sources_config ''/w/build'' False
             ''lib'' [] initial_world = (Inl (AttributeError ''clang_ar''), ?w)"
    by code_simp
  show ?thesis
    by (intro conjI) (rule ne pm h 1 c 2 nt g tt 3)+
qed

section \<open>The platform constants\<close>

text \<open>
  C2 is right by the module's docstring, which documents a prefix, a suffix, an output
  folder and extra flags for each artifact kind, and by target.py, which reads them;
  the module body is what falls short. On Linux it binds the three output
  directories, with the values of the table (\<open>bin\<close>, \<open>lib\<close>, \<open>lib\<close>), under names
  ending in \<open>_OUTPUT_DIR\<close>, and binds no prefix, no suffix, no extra flags and none of
  the names \<open>EXECUTABLE_OUTPUT\<close>, \<open>SHARED_LIBRARY_OUTPUT\<close>, \<open>STATIC_LIBRARY_OUTPUT\<close>
  that the constructors read. With this module every constructor of a compilable
  class raises \<open>AttributeError\<close> at the first constant it reads, whatever its
  arguments. An operating system the module does not know makes its import raise.
\<close>

theorem platform_module_lacks_artifact_constants:
  "(\<exists>m. platform_py py ''linux'' = Inr m
        \<and> map_of m ''EXECUTABLE_OUTPUT_DIR'' = Some (Str ''bin'')
        \<and> map_of m ''SHARED_LIBRARY_OUTPUT_DIR'' = Some (Str ''lib'')
        \<and> map_of m ''STATIC_LIBRARY_OUTPUT_DIR'' = Some (Str ''lib'')
        \<and> list_all (\<lambda>n. map_of m n = None)
             [''EXECUTABLE_PREFIX'', ''EXECUTABLE_SUFFIX'', ''EXECUTABLE_OUTPUT'',
              ''PLATFORM_EXTRA_FLAGS_EXECUTABLE'',
              ''SHARED_LIBRARY_PREFIX'', ''SHARED_LIBRARY_SUFFIX'', ''SHARED_LIBRARY_OUTPUT'',
              ''PLATFORM_EXTRA_FLAGS_SHARED'',
              ''STATIC_LIBRARY_PREFIX'', ''STATIC_LIBRARY_SUFFIX'', ''STATIC_LIBRARY_OUTPUT'',
              ''PLATFORM_EXTRA_FLAGS_STATIC'']
        \<and> Executable_init rt m env a srcs = Inl (AttributeError ''EXECUTABLE_OUTPUT'')
        \<and> SharedLibrary_init rt m env a srcs = Inl (AttributeError ''SHARED_LIBRARY_OUTPUT'')
        \<and> StaticLibrary_init rt m env a srcs = Inl (AttributeError ''STATIC_LIBRARY_OUTPUT''))
   \<and> platform_py py ''freebsd'' = Inl (RuntimeError ''Platform freebsdis currently not supported.'')"
  by (simp add: platform_py_def module_attr_def Executable_init_def SharedLibrary_init_def
        StaticLibrary_init_def)

section \<open>Circular dependencies\<close>

text \<open>
  C5 is what the code sets out to do, with a message \<open>In <target>: circular dependency
  -> <dependency>\<close> for each edge, and misses: the messages are made from the missing
  dependencies, of which there are none at this point (the constructor has exited
  otherwise), not from the cycles. Whenever the analyser reports a cycle, the one
  error record that is logged is the empty string: no edge of the cycle is reported.
  The rest of the claim holds: the constructor exits with code 1, and between the
  check and the exit no target is constructed.
\<close>

theorem circular_dependencies_logged_without_edges:
  assumes "find_non_existent_dependencies c targets_config = []"
    and "find_circular_dependencies c targets_config \<noteq> []"
  shows "Project_targets c env multiple_projects nm self_targets_config self_subprojects_config
           targets_config multiple_targets w
         = (Inl (SystemExit 1),
            w\<lparr>logged := logged w @ [LogError []],
              printed := printed w @ [''Project '' @ nm @ '': circular_dependencies.'']\<rparr>)"
  using assms
  by (simp add: Project_targets_def log_def print_line_def indent_messages_def)

theorem circular_dependencies_logged_without_edges_witness:
  "find_non_existent_dependencies (example_collaborators [[(''a'', ''b''), (''b'', ''a'')]] [])
     cycle_config = []
   \<and> find_circular_dependencies (example_collaborators [[(''a'', ''b''), (''b'', ''a'')]] [])
       cycle_config \<noteq> []
   \<and> Project_init (example_collaborators [[(''a'', ''b''), (''b'', ''a'')]] []) example_environment
       False (Dict cycle_config) empty_world
     = (Inl (SystemExit 1),
        \<lparr>logged = [LogError []], printed = [''Project : circular_dependencies.''], calls = []\<rparr>)"
proof -
  let ?c = "example_collaborators [[(''a'', ''b''), (''b'', ''a'')]] []"
  have 1: "find_non_existent_dependencies ?c cycle_config = []"
    by code_simp
  have 2: "find_circular_dependencies ?c cycle_config \<noteq> []"
    by code_simp
  have 3: "Project_init ?c example_environment False (Dict cycle_config) empty_world
           = Project_targets ?c example_environment False [] cycle_config [] cycle_config True
               empty_world"
    by code_simp
  have 4: "empty_world\<lparr>logged := logged empty_world @ [LogError []],
                       printed := printed empty_world @ [''Project '' @ [] @ '': circular_dependencies.'']\<rparr>
           = \<lparr>logged = [LogError []], printed = [''Project : circular_dependencies.''], calls = []\<rparr>"
    by (simp add: empty_world_def)
  from circular_dependencies_logged_without_edges[OF 1 2, of example_environment False "[]"
         cycle_config "[]" True empty_world]
  have "Project_init ?c example_environment False (Dict cycle_config) empty_world
        = (Inl (SystemExit 1),
           \<lparr>logged = [LogError []], printed = [''Project : circular_dependencies.''], calls = []\<rparr>)"
    unfolding 3 4 .
  with 1 2 show ?thesis by (intro conjI)
qed

section \<open>Unknown target types\<close>

text \<open>
  C6 is the error the code names (\<open>ERROR: Unsupported target type\<close>) and, unlike the
  other configuration errors of the same constructor, does not exit on. For a target
  whose \<open>target_type\<close>, in lower case, is none of the four, the step of the loop logs
  the error, constructs nothing, leaves the target list as it was and returns, so
  the loop goes on and the constructor returns a project; the target is missing from
  the list, in which the dependencies of later targets are looked up by their index
  in the walk.
\<close>

theorem unsupported_target_type_is_only_logged:
  assumes "map_of targets_config target_name = Some (Dict node)"
    and "map_of node ''target_type'' = Some (Str raw)"
    and "lower raw \<notin> {''executable'', ''shared library'', ''static library'', ''header only''}"
    and "resolve_dependencies target_names target_list (Dict node) = Inr dependencies"
  shows "Project_target c env target_names targets_config build_dir multiple_targets target_name
           target_list w
         = (Inr target_list,
            log (LogError (''ERROR: Unsupported target type: '' @ raw))
              (if filter (\<lambda>t. class_of c t = Executable) dependencies \<noteq> []
               then log (LogErrorExecutables (filter (\<lambda>t. class_of c t = Executable) dependencies)) w
               else w))"
  using assms
  by (simp add: Project_target_def dispatch_target_type_def Let_def)

theorem unsupported_target_type_is_only_logged_witness:
  "map_of module_config ''app''
     = Some (Dict [(''target_type'', Str ''module''), (''sources'', Seq [Str ''main.cpp''])])
   \<and> lower ''module'' \<notin> {''executable'', ''shared library'', ''static library'', ''header only''}
   \<and> Project_target (example_collaborators [] [''app'']) example_environment [''app''] module_config
       ''/w/build'' False ''app'' [] empty_world
     = (Inr [], \<lparr>logged = [LogError ''ERROR: Unsupported target type: module''],
                 printed = [], calls = []\<rparr>)
   \<and> Project_init (example_collaborators [] [''app'']) example_environment False (Dict module_config)
       empty_world
     = (Inr \<lparr>p_name = [], p_targets_config = module_config, p_subprojects_config = [],
             p_target_list = Some [], p_build_directory = Some ''/w/build''\<rparr>,
        \<lparr>logged = [LogError ''ERROR: Unsupported target type: module''],
          printed = [], calls = []\<rparr>)"
proof -
  let ?c = "example_collaborators [] [''app'']"
  let ?node = "[(''target_type'', Str ''module''), (''sources'', Seq [Str ''main.cpp''])]"
  have 1: "map_of module_config ''app'' = Some (Dict ?node)"
    by code_simp
  have 2: "map_of ?node ''target_type'' = Some (Str ''module'')"
    by simp
  have 3: "lower ''module'' \<notin> {''executable'', ''shared library'', ''static library'', ''header only''}"
    by code_simp
  have 4: "resolve_dependencies [''app''] ([] :: built list) (Dict ?node) = Inr []"
    by code_simp
  have 5: "log (LogError (''ERROR: Unsupported target type: '' @ ''module''))
             (if filter (\<lambda>t. class_of ?c t = Executable) [] \<noteq> []
              then log (LogErrorExecutables (filter (\<lambda>t. class_of ?c t = Executable) [])) empty_world
              else empty_world)
           = \<lparr>logged = [LogError ''ERROR: Unsupported target type: module''], printed = [], calls = []\<rparr>"
    by (simp add: log_def empty_world_def)
  from unsupported_target_type_is_only_logged[OF 1 2 3 4, of "?c" example_environment "''/w/build''"
         False empty_world]
  have 6: "Project_target ?c example_environment [''app''] module_config ''/w/build'' False ''app'' []
             empty_world
           = (Inr [], \<lparr>logged = [LogError ''ERROR: Unsupported target type: module''],
                       printed = [], calls = []\<rparr>)"
    unfolding 5 .
  have 7: "Project_init ?c example_environment False (Dict module_config) empty_world
           = (Inr \<lparr>p_name = [], p_targets_config = module_config, p_subprojects_config = [],
                   p_target_list = Some [], p_build_directory = Some ''/w/build''\<rparr>,
              \<lparr>logged = [LogError ''ERROR: Unsupported target type: module''],
                printed = [], calls = []\<rparr>)"
    by code_simp
  from 1 3 6 7 show ?thesis by (intro conjI)
qed

section \<open>Build directories\<close>


section \<open>Executables among the dependencies\<close>

text \<open>
  What the loop body does when the dependencies looked up for a target hold a target of
  class \<open>Executable\<close>, whatever the constructors do: it logs an error that names the
  executables and goes on; the only things it can still raise are what a constructor
  call raises and the \<open>AttributeError\<close> of a target type that is not a string; every
  constructor call it makes is given the whole list of dependencies, the executable
  among them; and for a definition without \<open>target_type\<close> the constructor is called
  and its target joins the target list.
\<close>

lemma executable_dependency_step:
  assumes "py_getitem (Dict targets_config) target_name = Inr project_node"
    and "resolve_dependencies target_names target_list project_node = Inr dependencies"
    and "\<exists>d \<in> set dependencies. class_of c d = Executable"
    and "Project_target c env target_names targets_config build_dir multiple_targets target_name
           target_list w = (r, w')"
  shows "LogErrorExecutables (filter (\<lambda>t. class_of c t = Executable) dependencies) \<in> set (logged w')
       \<and> prefix (calls w) (calls w')
       \<and> (\<forall>call \<in> set (drop (length (calls w)) (calls w')).
             cc_dependencies call = dependencies \<and> cc_target_name call = target_name)
       \<and> (\<forall>e. r = Inl e \<longrightarrow>
             e = AttributeError ''lower''
             \<or> (\<exists>call \<in> set (drop (length (calls w)) (calls w')). new_target c call = Inl e))
       \<and> (py_in ''target_type'' project_node = Inr False \<longrightarrow>
             (\<exists>call. calls w' = calls w @ [call] \<and> cc_dependencies call = dependencies
                \<and> (case new_target c call of
                      Inl e \<Rightarrow> r = Inl e
                    | Inr t \<Rightarrow> r = Inr (target_list @ [t]))))"
proof -
  define exes where "exes = filter (\<lambda>t. class_of c t = Executable) dependencies"
  from assms(3) have ne: "(exes = []) = False"
    by (auto simp: exes_def filter_empty_conv)
  define w1 where "w1 = log (LogErrorExecutables exes) w"
  define fs where "fs = get_sources_and_headers c project_node (env_workingdir env)
                          (target_build_dir_of build_dir multiple_targets target_name)"
  define mk where "mk = (\<lambda>k. \<lparr>cc_class = k, cc_target_name = target_name,
                                cc_workingdir = env_workingdir env,
                                cc_target_build_dir =
                                  target_build_dir_of build_dir multiple_targets target_name,
                                cc_headers = f_headers fs,
                                cc_include_directories = f_include_directories fs,
                                cc_sourcefiles =
                                  (if k = HeaderOnly then None else Some (f_sourcefiles fs)),
                                cc_environment = env,
                                cc_project_node = project_node,
                                cc_dependencies = dependencies\<rparr>)"
  have w1: "calls w1 = calls w" "logged w1 = logged w @ [LogErrorExecutables exes]"
    by (simp_all add: w1_def log_def)
  have mk: "cc_dependencies (mk k) = dependencies \<and> cc_target_name (mk k) = target_name" for k
    by (simp add: mk_def)
  from assms(2) obtain d where node: "project_node = Dict d"
    by (cases project_node) (simp_all add: resolve_dependencies_def)
  have step: "(case py_in ''target_type'' (Dict d) of
              Inl e \<Rightarrow> (Inl e, w1)
            | Inr True \<Rightarrow>
                (case py_getitem (Dict d) ''target_type'' of
                   Inl e \<Rightarrow> (Inl e, w1)
                 | Inr (Str raw) \<Rightarrow>
                     dispatch_target_type c mk target_name fs (lower raw) raw target_list w1
                 | Inr (Bool b) \<Rightarrow> (Inl (AttributeError ''lower''), w1)
                 | Inr (Seq vs) \<Rightarrow> (Inl (AttributeError ''lower''), w1)
                 | Inr (Dict d') \<Rightarrow> (Inl (AttributeError ''lower''), w1))
            | Inr False \<Rightarrow>
                if f_sourcefiles fs = [] then
                  append_new c (mk HeaderOnly) target_list
                    (log (LogInfo (''No source files found for target '' @ target_name
                                   @ ''. Creating header-only target.'')) w1)
                else
                  append_new c (mk Executable) target_list
                    (log (LogInfo (decimal (length (f_sourcefiles fs))
                                   @ '' source files found for target '' @ target_name
                                   @ ''. Creating executable target.'')) w1)) = (r, w')"
    using assms(4)
    unfolding Project_target_def assms(1) sum.case Let_def assms(2)
      exes_def[symmetric] ne not_False_eq_True if_True w1_def[symmetric] fs_def[symmetric]
    unfolding mk_def node .
  note res = target_type_branch_result[OF step]
  have 1: "LogErrorExecutables exes \<in> set (logged w')"
    using res(1) w1(2) by (auto simp: prefix_def)
  have 2: "prefix (calls w) (calls w')"
    using res(2) w1(1) by simp
  have 3: "\<forall>call \<in> set (drop (length (calls w)) (calls w')).
             cc_dependencies call = dependencies \<and> cc_target_name call = target_name"
    using res(3) w1(1) mk by auto
  have 4: "\<forall>e. r = Inl e \<longrightarrow>
             e = AttributeError ''lower''
             \<or> (\<exists>call \<in> set (drop (length (calls w)) (calls w')). new_target c call = Inl e)"
    using res(4) w1(1) by simp
  have 5: "py_in ''target_type'' project_node = Inr False \<longrightarrow>
             (\<exists>call. calls w' = calls w @ [call] \<and> cc_dependencies call = dependencies
                \<and> (case new_target c call of
                      Inl e \<Rightarrow> r = Inl e
                    | Inr t \<Rightarrow> r = Inr (target_list @ [t])))"
  proof
    assume "py_in ''target_type'' project_node = Inr False"
    then have "map_of d ''target_type'' = None"
      by (simp add: node)
    from res(5)[OF this] obtain k where
      k: "calls w' = calls w1 @ [mk k]"
         "case new_target c (mk k) of Inl e \<Rightarrow> r = Inl e | Inr t \<Rightarrow> r = Inr (target_list @ [t])"
      by blast
    show "\<exists>call. calls w' = calls w @ [call] \<and> cc_dependencies call = dependencies
                \<and> (case new_target c call of
                      Inl e \<Rightarrow> r = Inl e
                    | Inr t \<Rightarrow> r = Inr (target_list @ [t]))"
      using k mk[of k] w1(1) by (intro exI[of _ "mk k"]) simp
  qed
  from 1 2 3 4 5 show ?thesis
    unfolding exes_def by (intro conjI)
qed

text \<open>
  C8 is what the loop body sets out to do, and what no run of the constructor gets to.
  With the constructors called as project.py calls them, no call returns a target, so
  the target list, empty when the loop starts, stays empty: the loop returns no
  target, no dependency is ever found in the list and handed to a constructor, and the
  error about executables among the dependencies is never logged. For the project of
  an executable \<open>gen\<close> and a target \<open>app\<close> that depends on it, the constructor of the
  project ends with the \<open>AttributeError\<close> of the call that should construct \<open>gen\<close>.
\<close>

theorem executable_dependency_never_reached:
  assumes "new_target c = positional_new_target rt"
    and "Project_loop c env target_names targets_config build_dir multiple_targets ns [] w = (r, w')"
  shows "(\<forall>tl. r = Inr tl \<longrightarrow> tl = [])
       \<and> (\<forall>ts. LogErrorExecutables ts \<in> set (logged w') \<longrightarrow> LogErrorExecutables ts \<in> set (logged w))
       \<and> (\<forall>call \<in> set (calls w'). call \<in> set (calls w) \<or> cc_dependencies call = [])"
proof -
  have "\<exists>e. new_target c call = Inl e" for call
    unfolding assms(1) by (rule positional_new_target_raises)
  from Project_loop_never_constructs[OF this assms(2)] show ?thesis .
qed

theorem executable_dependency_never_reached_witness:
  "new_target (positional_collaborators [''gen'', ''app'']) = positional_new_target example_runtime
   \<and> Project_loop (positional_collaborators [''gen'', ''app'']) example_environment [''gen'', ''app'']
       executable_dependency_config ''/w/build'' True [''gen'', ''app''] [] initial_world
     = (Inl (AttributeError ''clangpp''),
        \<lparr>logged = [LogInfo ''1 source files found for target gen. Creating executable target.''],
          printed = [],
          calls = [\<lparr>cc_class = Executable, cc_target_name = ''gen'', cc_workingdir = ''/w'',
                     cc_target_build_dir = ''/w/build/gen'', cc_headers = [],
                     cc_include_directories = [], cc_sourcefiles = Some [''gen.cpp''],
                     cc_environment = example_environment,
                     cc_project_node = Dict [(''sources'', Seq [Str ''gen.cpp''])],
                     cc_dependencies = []\<rparr>]\<rparr>)
   \<and> Project_init (positional_collaborators [''gen'', ''app'']) example_environment False
       (Dict executable_dependency_config) initial_world
     = (Inl (AttributeError ''clangpp''),
        \<lparr>logged = [LogInfo ''1 source files found for target gen. Creating executable target.''],
          printed = [],
          calls = [\<lparr>cc_class = Executable, cc_target_name = ''gen'', cc_workingdir = ''/w'',
                     cc_target_build_dir = ''/w/build/gen'', cc_headers = [],
                     cc_include_directories = [], cc_sourcefiles = Some [''gen.cpp''],
                     cc_environment = example_environment,
                     cc_project_node = Dict [(''sources'', Seq [Str ''gen.cpp''])],
                     cc_dependencies = []\<rparr>]\<rparr>)
   \<and> (\<nexists>ts. LogErrorExecutables ts
             \<in> set (logged (snd (Project_loop (positional_collaborators [''gen'', ''app''])
                                   example_environment [''gen'', ''app'']
                                   executable_dependency_config ''/w/build'' True
                                   [''gen'', ''app''] [] initial_world))))"
proof -
  let ?c = "positional_collaborators [''gen'', ''app'']"
  let ?w = "\<lparr>logged = [LogInfo ''1 source files found for target gen. Creating executable target.''],
             printed = [],
             calls = [\<lparr>cc_class = Executable, cc_target_name = ''gen'', cc_workingdir = ''/w'',
                        cc_target_build_dir = ''/w/build/gen'', cc_headers = [],
                        cc_include_directories = [], cc_sourcefiles = Some [''gen.cpp''],
                        cc_environment = example_environment,
                        cc_project_node = Dict [(''sources'', Seq [Str ''gen.cpp''])],
                        cc_dependencies = ([] :: target list)\<rparr>]\<rparr>"
  have nt: "new_target ?c = positional_new_target example_runtime"
    by (simp add: positional_collaborators_def)
  have run: "Project_loop ?c example_environment [''gen'', ''app''] executable_dependency_config
               ''/w/build'' True [''gen'', ''app''] [] initial_world
             = (Inl (AttributeError ''clangpp''), ?w)"
    by code_simp
  have init: "Project_init ?c example_environment False (Dict executable_dependency_config)
                initial_world
              = (Inl (AttributeError ''clangpp''), ?w)"
    by code_simp
  from executable_dependency_never_reached[OF nt run]
  have "\<forall>ts. LogErrorExecutables ts \<in> set (logged ?w)
              \<longrightarrow> LogErrorExecutables ts \<in> set (logged initial_world)"
    by (rule conjunct1[OF conjunct2])
  then have "\<nexists>ts. LogErrorExecutables ts \<in> set (logged ?w)"
    by (simp add: initial_world_def)
  then have 4: "\<nexists>ts. LogErrorExecutables ts
             \<in> set (logged (snd (Project_loop ?c example_environment [''gen'', ''app'']
                                   executable_dependency_config ''/w/build'' True
                                   [''gen'', ''app''] [] initial_world)))"
    unfolding run by simp
  from nt run init 4 show ?thesis
    by (intro conjI)
qed

end
